theory Spec2Isabelle
  imports Complex_Main
begin

section \<open>Values, errors and data frames\<close>

text \<open>
  The value that \<open>json.loads\<close> returns. Numbers are modelled by their value (a rational):
  the distinction between Python's \<open>int\<close> and \<open>float\<close>, rounding and the non-finite floats
  are not part of the model. A \<open>JObj\<close> stands for a Python \<open>dict\<close>; a key is looked up at
  its first occurrence in the list.
\<close>

datatype json =
    JNull
  | JBool bool
  | JNum rat
  | JStr string
  | JArr "json list"
  | JObj "(string \<times> json) list"

text \<open>The exceptions the pipeline can meet, named after their Python classes.\<close>

datatype error =
    KeyError "string list"
  | TypeError
  | IndexError
  | ValueError
  | GoogleAPIError string

definition and_then :: "error + 'a \<Rightarrow> ('a \<Rightarrow> error + 'b) \<Rightarrow> error + 'b" where
  "and_then m f = (case m of Inl e \<Rightarrow> Inl e | Inr x \<Rightarrow> f x)"

text \<open>
  A pandas \<open>DataFrame\<close> with string column labels: the labels, and the rows in order, each
  row holding one cell per label. A missing value (\<open>None\<close>, \<open>NaN\<close>) is the cell \<open>JNull\<close>.
  Row labels are the positions in the list. The pandas library is not part of the
  repository: each of its operations that the source calls is modelled by its documented
  behaviour, with the arguments the source gives it.
\<close>

record frame =
  columns :: "string list"
  rows :: "json list list"

definition cell :: "string list \<Rightarrow> json list \<Rightarrow> string \<Rightarrow> json" where
  "cell cs r c = (case map_of (zip cs r) c of Some v \<Rightarrow> v | None \<Rightarrow> JNull)"

definition column :: "frame \<Rightarrow> string \<Rightarrow> json list" where
  "column df c = map (\<lambda>r. cell (columns df) r c) (rows df)"

text \<open>
  \<open>pd.DataFrame([data])\<close> (line 24): always one row. For a dict the columns are its keys.
  For any other JSON value pandas labels the columns by position (integers), so no column
  has a string label: the frame is modelled with no columns.
\<close>

definition DataFrame :: "json \<Rightarrow> frame" where
  "DataFrame data =
     (case data of
        JObj kvs \<Rightarrow> \<lparr>columns = map fst kvs, rows = [map snd kvs]\<rparr>
      | _ \<Rightarrow> \<lparr>columns = [], rows = [[]]\<rparr>)"

text \<open>\<open>df[[c1, ..., cn]]\<close>: a \<open>KeyError\<close> names the labels that are not columns.\<close>

definition getitem :: "frame \<Rightarrow> string list \<Rightarrow> error + frame" where
  "getitem df cs =
     (if list_all (\<lambda>c. c \<in> set (columns df)) cs
      then Inr \<lparr>columns = cs, rows = map (\<lambda>r. map (cell (columns df) r) cs) (rows df)\<rparr>
      else Inl (KeyError (filter (\<lambda>c. c \<notin> set (columns df)) cs)))"

text \<open>A list or a dict in a cell is unhashable: pandas cannot factorize the column.\<close>

fun hashable :: "json \<Rightarrow> bool" where
  "hashable (JArr _) = False"
| "hashable (JObj _) = False"
| "hashable _ = True"

text \<open>Keeping the first row of every key (\<open>keep='first'\<close>, the default).\<close>

fun keep_first :: "('a \<Rightarrow> 'k) \<Rightarrow> 'a list \<Rightarrow> 'a list" where
  "keep_first k [] = []"
| "keep_first k (x # xs) = x # keep_first k (filter (\<lambda>y. k y \<noteq> k x) xs)"

text \<open>
  \<open>df.drop_duplicates(subset=...)\<close>: two rows are duplicates when their cells in the subset
  columns are equal (a missing value equals a missing value).
\<close>

definition drop_duplicates :: "string list \<Rightarrow> frame \<Rightarrow> error + frame" where
  "drop_duplicates ks df =
     (if \<not> list_all (\<lambda>c. c \<in> set (columns df)) ks
      then Inl (KeyError (filter (\<lambda>c. c \<notin> set (columns df)) ks))
      else if \<not> list_all (\<lambda>r. list_all (\<lambda>c. hashable (cell (columns df) r c)) ks) (rows df)
      then Inl TypeError
      else Inr (df\<lparr>rows := keep_first (\<lambda>r. map (cell (columns df) r) ks) (rows df)\<rparr>))"

text \<open>\<open>reset_index(drop=True)\<close> renumbers the row labels: rows are already labelled by position.\<close>

definition reset_index :: "frame \<Rightarrow> frame" where
  "reset_index df = df"

text \<open>\<open>df.drop(columns=cs)\<close>.\<close>

definition drop_columns :: "string list \<Rightarrow> frame \<Rightarrow> error + frame" where
  "drop_columns cs df =
     (if \<not> list_all (\<lambda>c. c \<in> set (columns df)) cs
      then Inl (KeyError (filter (\<lambda>c. c \<notin> set (columns df)) cs))
      else Inr \<lparr>columns = filter (\<lambda>c. c \<notin> set cs) (columns df),
                rows = map (\<lambda>r. map snd (filter (\<lambda>(c, v). c \<notin> set cs) (zip (columns df) r))) (rows df)\<rparr>)"

section \<open>What the libraries and the warehouse decide\<close>

text \<open>
  The behaviour the source leaves to its collaborators is a parameter of the model:
  decoding the Pub/Sub event (\<open>base64.b64decode(event['data']).decode('utf-8')\<close>),
  \<open>json.loads\<close>, Python's \<open>str\<close> on a value that is not a string, the date parser that
  decides whether a string column is a datetime column (giving year and month), and
  whether the load job of a table succeeds (\<open>None\<close>) or raises.
\<close>

record 'ev env =
  b64decode_utf8 :: "'ev \<Rightarrow> error + string"
  json_loads :: "string \<Rightarrow> error + json"
  pystr :: "json \<Rightarrow> string"
  to_datetime :: "string \<Rightarrow> (int \<times> int) option"
  load_job :: "string \<Rightarrow> frame \<Rightarrow> error option"

section \<open>Step 1: the four tables (lines 26 to 37)\<close>

definition customer_columns :: "string list" where
  "customer_columns = [''Customer ID'', ''Customer Name'', ''Segment'', ''Country'', ''City'',
     ''State'', ''Postal Code'', ''Region'']"

definition product_columns :: "string list" where
  "product_columns = [''Product ID'', ''Category'', ''Sub-Category'', ''Product Name'']"

definition order_columns :: "string list" where
  "order_columns = [''Order ID'', ''Order Date'', ''Ship Date'', ''Ship Mode'']"

definition orderDetail_columns :: "string list" where
  "orderDetail_columns = [''Order ID'', ''Product ID'', ''Customer ID'', ''Sales'', ''Quantity'',
     ''Discount'', ''Profit'']"

definition customers_df :: "frame \<Rightarrow> error + frame" where
  "customers_df df =
     and_then (getitem df customer_columns) (\<lambda>d.
     and_then (drop_duplicates [''Customer ID''] d) (\<lambda>d. Inr (reset_index d)))"

definition products_df :: "frame \<Rightarrow> error + frame" where
  "products_df df =
     and_then (getitem df product_columns) (\<lambda>d.
     and_then (drop_duplicates [''Product ID''] d) (\<lambda>d. Inr (reset_index d)))"

definition orders_df :: "frame \<Rightarrow> error + frame" where
  "orders_df df =
     and_then (getitem df order_columns) (\<lambda>d.
     and_then (drop_duplicates (columns d) d) (\<lambda>d. Inr (reset_index d)))"

text \<open>\<open>astype(str)\<close> on a cell: a string is itself, any other value is printed by \<open>str\<close>.\<close>

definition astype_str :: "'ev env \<Rightarrow> json \<Rightarrow> string" where
  "astype_str E v = (case v of JStr s \<Rightarrow> s | _ \<Rightarrow> pystr E v)"

text \<open>The synthetic join key of line 37.\<close>

definition orderDetail_ID :: "'ev env \<Rightarrow> json \<Rightarrow> json \<Rightarrow> string" where
  "orderDetail_ID E order_id product_id = astype_str E order_id @ ''_'' @ astype_str E product_id"

definition assign_OrderDetail_ID :: "'ev env \<Rightarrow> frame \<Rightarrow> frame" where
  "assign_OrderDetail_ID E d =
     \<lparr>columns = columns d @ [''OrderDetail ID''],
      rows = map (\<lambda>r. r @ [JStr (orderDetail_ID E (cell (columns d) r ''Order ID'')
                                                   (cell (columns d) r ''Product ID''))]) (rows d)\<rparr>"

definition orderDetails_df :: "'ev env \<Rightarrow> frame \<Rightarrow> error + frame" where
  "orderDetails_df E df =
     and_then (getitem df orderDetail_columns) (\<lambda>d.
     and_then (drop_duplicates [''Order ID'', ''Product ID''] d) (\<lambda>d.
       Inr (assign_OrderDetail_ID E (reset_index d))))"

section \<open>Step 2: the entity set and deep feature synthesis (lines 42 to 65)\<close>

text \<open>
  Modelled from the spec: the entity graph builder and the feature derivation engine. The
  source calls the featuretools library for both (\<open>ft.EntitySet\<close>, \<open>add_dataframe\<close>,
  \<open>add_relationships\<close>, \<open>ft.dfs\<close>); the library is not part of the repository. Its model
  follows sections 3, 4.2 and 4.3 of the specification: a declared key is unique, a feature
  of an ancestor row is a count, sum, mean or maximum over the rows of OrderDetails with
  the ancestor's key, or the month or year of the ancestor's own date, it is repeated on
  each of those rows, and a mean of no value and a part of a missing date are missing
  values.
\<close>

record entityset =
  Customers :: frame
  Products :: frame
  Orders :: frame
  OrderDetails :: frame

text \<open>
  \<open>es.add_dataframe(dataframe=df, index=i)\<close>: the index column must exist and hold no value
  twice.
\<close>

definition add_dataframe :: "frame \<Rightarrow> string \<Rightarrow> error + frame" where
  "add_dataframe df i =
     (if i \<notin> set (columns df) then Inl (KeyError [i])
      else if \<not> distinct (column df i) then Inl IndexError
      else Inr df)"

definition EntitySet :: "frame \<Rightarrow> frame \<Rightarrow> frame \<Rightarrow> frame \<Rightarrow> error + entityset" where
  "EntitySet c p o1 od =
     and_then (add_dataframe c ''Customer ID'') (\<lambda>c.
     and_then (add_dataframe p ''Product ID'') (\<lambda>p.
     and_then (add_dataframe o1 ''Order ID'') (\<lambda>o1.
     and_then (add_dataframe od ''OrderDetail ID'') (\<lambda>od.
       Inr \<lparr>Customers = c, Products = p, Orders = o1, OrderDetails = od\<rparr>))))"

text \<open>
  The three relationships of lines 51 to 55 go from a parent's index to a column of
  OrderDetails. The rows of OrderDetails that belong to a parent key:
\<close>

definition children :: "frame \<Rightarrow> string \<Rightarrow> json \<Rightarrow> json list list" where
  "children od fk k = filter (\<lambda>r. cell (columns od) r fk = k) (rows od)"

fun is_num :: "json \<Rightarrow> bool" where
  "is_num (JNum _) = True"
| "is_num _ = False"

fun num :: "json \<Rightarrow> rat" where
  "num (JNum q) = q"
| "num _ = 0"

text \<open>The numbers of a column in some rows; missing values are skipped.\<close>

definition values_of :: "frame \<Rightarrow> string \<Rightarrow> json list list \<Rightarrow> rat list" where
  "values_of od c rs = map num (filter is_num (map (\<lambda>r. cell (columns od) r c) rs))"

text \<open>
  Modelled from the spec: the aggregation primitives \<open>COUNT\<close>, \<open>SUM\<close>, \<open>MEAN\<close> and
  \<open>MAX\<close> of the feature derivation engine (section 4.3). The mean and the maximum of no
  value are missing values, the count and the sum of no value are 0.
\<close>

definition agg_count :: "json list list \<Rightarrow> json" where
  "agg_count rs = JNum (of_nat (length rs))"

definition agg_sum :: "rat list \<Rightarrow> json" where
  "agg_sum xs = JNum (sum_list xs)"

definition agg_mean :: "rat list \<Rightarrow> json" where
  "agg_mean xs = (if xs = [] then JNull else JNum (sum_list xs / of_nat (length xs)))"

definition agg_max :: "rat list \<Rightarrow> json" where
  "agg_max xs = (case xs of [] \<Rightarrow> JNull | x # ys \<Rightarrow> JNum (fold max ys x))"

text \<open>
  Modelled from the spec: the calendar decompositions \<open>MONTH\<close> and \<open>YEAR\<close> of a date
  of the ancestor itself (section 4.3); the part of a missing date is a missing value.
\<close>

definition year_of :: "'ev env \<Rightarrow> json \<Rightarrow> json" where
  "year_of E v =
     (case v of
        JStr s \<Rightarrow> (case to_datetime E s of Some (y, m) \<Rightarrow> JNum (of_int y) | None \<Rightarrow> JNull)
      | _ \<Rightarrow> JNull)"

definition month_of :: "'ev env \<Rightarrow> json \<Rightarrow> json" where
  "month_of E v =
     (case v of
        JStr s \<Rightarrow> (case to_datetime E s of Some (y, m) \<Rightarrow> JNum (of_int m) | None \<Rightarrow> JNull)
      | _ \<Rightarrow> JNull)"

text \<open>
  A feature of a parent row: an aggregate over the parent's rows of OrderDetails, or a
  date part of one of its own columns.
\<close>

definition count_children :: "frame \<Rightarrow> string \<Rightarrow> frame \<Rightarrow> string \<Rightarrow> json list \<Rightarrow> json" where
  "count_children parent key od fk p = agg_count (children od fk (cell (columns parent) p key))"

definition aggregate ::
  "(rat list \<Rightarrow> json) \<Rightarrow> frame \<Rightarrow> string \<Rightarrow> frame \<Rightarrow> string \<Rightarrow> string \<Rightarrow> json list \<Rightarrow> json" where
  "aggregate agg parent key od fk c p =
     agg (values_of od c (children od fk (cell (columns parent) p key)))"

definition date_part :: "(json \<Rightarrow> json) \<Rightarrow> frame \<Rightarrow> string \<Rightarrow> json list \<Rightarrow> json" where
  "date_part part parent c p = part (cell (columns parent) p c)"

text \<open>
  A direct feature: the parent's feature, on every row of OrderDetails that refers to the
  parent; a missing value where there is no such parent row.
\<close>

definition direct ::
  "frame \<Rightarrow> string \<Rightarrow> frame \<Rightarrow> string \<Rightarrow> (json list \<Rightarrow> json) \<Rightarrow> json list \<Rightarrow> json" where
  "direct parent key od fk f r =
     (case find (\<lambda>p. cell (columns parent) p key = cell (columns od) r fk) (rows parent) of
        None \<Rightarrow> JNull
      | Some p \<Rightarrow> f p)"

text \<open>
  Which features exist depends on the types of the columns: sum, mean and maximum are
  generated for a numeric column, month and year for a datetime column. In the model a
  column is numeric when it has a number and every cell is a number or missing, and a
  datetime column when it has a string that the date parser accepts and every cell is such
  a string or missing.
\<close>

definition is_date :: "'ev env \<Rightarrow> json \<Rightarrow> bool" where
  "is_date E v = (case v of JStr s \<Rightarrow> to_datetime E s \<noteq> None | _ \<Rightarrow> False)"

definition numeric_column :: "frame \<Rightarrow> string \<Rightarrow> bool" where
  "numeric_column df c =
     (list_ex is_num (column df c) \<and> list_all (\<lambda>v. is_num v \<or> v = JNull) (column df c))"

definition datetime_column :: "'ev env \<Rightarrow> frame \<Rightarrow> string \<Rightarrow> bool" where
  "datetime_column E df c =
     (list_ex (is_date E) (column df c) \<and> list_all (\<lambda>v. is_date E v \<or> v = JNull) (column df c))"

definition only_if :: "bool \<Rightarrow> 'a \<Rightarrow> 'a list" where
  "only_if b x = (if b then [x] else [])"

text \<open>
  The features that \<open>ft.dfs\<close> generates for the target OrderDetails, as far as line 68 selects
  them (the selection discards every other generated column), under their generated names.
\<close>

definition generated_features :: "'ev env \<Rightarrow> entityset \<Rightarrow> (string \<times> (json list \<Rightarrow> json)) list" where
  "generated_features E es =
     (let c = Customers es; p = Products es; o1 = Orders es; od = OrderDetails es;
          of_customer = direct c ''Customer ID'' od ''Customer ID'';
          of_product = direct p ''Product ID'' od ''Product ID'';
          of_order = direct o1 ''Order ID'' od ''Order ID''
      in
        [(''Customers.COUNT(OrderDetails)'',
            of_customer (count_children c ''Customer ID'' od ''Customer ID'')),
         (''Products.COUNT(OrderDetails)'',
            of_product (count_children p ''Product ID'' od ''Product ID''))]
        @ only_if (numeric_column od ''Profit'')
            (''Products.MAX(OrderDetails.Profit)'',
               of_product (aggregate agg_max p ''Product ID'' od ''Product ID'' ''Profit''))
        @ only_if (numeric_column od ''Discount'')
            (''Products.MEAN(OrderDetails.Discount)'',
               of_product (aggregate agg_mean p ''Product ID'' od ''Product ID'' ''Discount''))
        @ only_if (numeric_column od ''Quantity'')
            (''Products.SUM(OrderDetails.Quantity)'',
               of_product (aggregate agg_sum p ''Product ID'' od ''Product ID'' ''Quantity''))
        @ only_if (numeric_column od ''Sales'')
            (''Products.SUM(OrderDetails.Sales)'',
               of_product (aggregate agg_sum p ''Product ID'' od ''Product ID'' ''Sales''))
        @ [(''Orders.COUNT(OrderDetails)'',
            of_order (count_children o1 ''Order ID'' od ''Order ID''))]
        @ only_if (numeric_column od ''Quantity'')
            (''Orders.MAX(OrderDetails.Quantity)'',
               of_order (aggregate agg_max o1 ''Order ID'' od ''Order ID'' ''Quantity''))
        @ only_if (numeric_column od ''Profit'')
            (''Orders.MEAN(OrderDetails.Profit)'',
               of_order (aggregate agg_mean o1 ''Order ID'' od ''Order ID'' ''Profit''))
        @ only_if (numeric_column od ''Sales'')
            (''Orders.SUM(OrderDetails.Sales)'',
               of_order (aggregate agg_sum o1 ''Order ID'' od ''Order ID'' ''Sales''))
        @ only_if (datetime_column E o1 ''Order Date'')
            (''Orders.MONTH(Order Date)'', of_order (date_part (month_of E) o1 ''Order Date''))
        @ only_if (datetime_column E o1 ''Order Date'')
            (''Orders.YEAR(Order Date)'', of_order (date_part (year_of E) o1 ''Order Date'')))"

text \<open>
  The feature matrix: one row of features per row of the target, labelled by the target's
  index \<open>OrderDetail ID\<close>.
\<close>

record fmatrix =
  index_name :: string
  index :: "json list"
  features :: frame

definition dfs :: "'ev env \<Rightarrow> entityset \<Rightarrow> fmatrix" where
  "dfs E es =
     (let fs = generated_features E es; od = OrderDetails es
      in \<lparr>index_name = ''OrderDetail ID'',
          index = column od ''OrderDetail ID'',
          features = \<lparr>columns = map fst fs, rows = map (\<lambda>r. map (\<lambda>f. snd f r) fs) (rows od)\<rparr>\<rparr>)"

section \<open>Selecting, renaming and merging the features (lines 68 to 99)\<close>

definition selected_names :: "string list" where
  "selected_names =
     [''Customers.COUNT(OrderDetails)'',
      ''Products.COUNT(OrderDetails)'', ''Products.MAX(OrderDetails.Profit)'',
      ''Products.MEAN(OrderDetails.Discount)'',
      ''Products.SUM(OrderDetails.Quantity)'', ''Products.SUM(OrderDetails.Sales)'',
      ''Orders.COUNT(OrderDetails)'', ''Orders.MAX(OrderDetails.Quantity)'',
      ''Orders.MEAN(OrderDetails.Profit)'', ''Orders.SUM(OrderDetails.Sales)'',
      ''Orders.MONTH(Order Date)'', ''Orders.YEAR(Order Date)'']"

definition renaming :: "(string \<times> string) list" where
  "renaming =
     [(''Customers.COUNT(OrderDetails)'', ''Customer_Order_Count''),
      (''Products.COUNT(OrderDetails)'', ''Product_Order_Count''),
      (''Products.MAX(OrderDetails.Profit)'', ''Product_Max_Profit''),
      (''Products.MEAN(OrderDetails.Discount)'', ''Product_Mean_Discount''),
      (''Products.SUM(OrderDetails.Quantity)'', ''Product_Total_Quantity''),
      (''Products.SUM(OrderDetails.Sales)'', ''Product_Total_Sales''),
      (''Orders.COUNT(OrderDetails)'', ''Order_Item_Count''),
      (''Orders.MAX(OrderDetails.Quantity)'', ''Order_Max_Quantity''),
      (''Orders.MEAN(OrderDetails.Profit)'', ''Order_Mean_Profit''),
      (''Orders.SUM(OrderDetails.Sales)'', ''Order_Total_Sales''),
      (''Orders.MONTH(Order Date)'', ''Order_Month''),
      (''Orders.YEAR(Order Date)'', ''Order_Year'')]"

text \<open>\<open>feature_matrix[[...]]\<close> and \<open>rename(columns=...)\<close> keep the index.\<close>

definition select_features :: "fmatrix \<Rightarrow> string list \<Rightarrow> error + fmatrix" where
  "select_features fm cs = and_then (getitem (features fm) cs) (\<lambda>d. Inr (fm\<lparr>features := d\<rparr>))"

definition rename_columns :: "(string \<times> string) list \<Rightarrow> fmatrix \<Rightarrow> fmatrix" where
  "rename_columns m fm =
     fm\<lparr>features := (features fm)
        \<lparr>columns := map (\<lambda>c. case map_of m c of Some n \<Rightarrow> n | None \<Rightarrow> c) (columns (features fm))\<rparr>\<rparr>"

definition selected_features_df :: "fmatrix \<Rightarrow> error + fmatrix" where
  "selected_features_df feature_matrix =
     and_then (select_features feature_matrix selected_names) (\<lambda>d. Inr (rename_columns renaming d))"

text \<open>
  \<open>left.merge(right, on=key, how="left")\<close>, where \<open>key\<close> is a column of the left frame and
  the name of the right frame's index. Every left row is followed by the features of each
  right row with an equal key, in the right frame's order; a left row with no equal key
  gets missing values. (The two frames of line 93 share no column label, so no label is
  suffixed.)
\<close>

definition matches :: "fmatrix \<Rightarrow> json \<Rightarrow> json list list" where
  "matches right k = map snd (filter (\<lambda>(i, m). i = k) (zip (index right) (rows (features right))))"

definition merge_row :: "fmatrix \<Rightarrow> json \<Rightarrow> json list \<Rightarrow> json list list" where
  "merge_row right k r =
     (case matches right k of
        [] \<Rightarrow> [r @ replicate (length (columns (features right))) JNull]
      | ms \<Rightarrow> map (\<lambda>m. r @ m) ms)"

definition merge_left :: "frame \<Rightarrow> fmatrix \<Rightarrow> string \<Rightarrow> error + frame" where
  "merge_left left right key =
     (if key \<notin> set (columns left) \<or> key \<noteq> index_name right then Inl (KeyError [key])
      else Inr \<lparr>columns = columns left @ columns (features right),
                rows = concat (map (\<lambda>r. merge_row right (cell (columns left) r key) r) (rows left))\<rparr>)"

text \<open>Lines 93 to 99: the enriched OrderDetails table.\<close>

definition enrich :: "frame \<Rightarrow> fmatrix \<Rightarrow> error + frame" where
  "enrich od selected =
     and_then (merge_left od selected ''OrderDetail ID'') (drop_columns [''OrderDetail ID''])"

text \<open>Lines 26 to 37, the four tables; lines 26 to 99, the four tables that are loaded.\<close>

definition normalize :: "'ev env \<Rightarrow> frame \<Rightarrow> error + (frame \<times> frame \<times> frame \<times> frame)" where
  "normalize E df =
     and_then (customers_df df) (\<lambda>c.
     and_then (products_df df) (\<lambda>p.
     and_then (orders_df df) (\<lambda>o1.
     and_then (orderDetails_df E df) (\<lambda>od. Inr (c, p, o1, od)))))"

definition transform :: "'ev env \<Rightarrow> frame \<Rightarrow> error + (frame \<times> frame \<times> frame \<times> frame)" where
  "transform E df =
     and_then (normalize E df) (\<lambda>(c, p, o1, od).
     and_then (EntitySet c p o1 od) (\<lambda>es.
     and_then (selected_features_df (dfs E es)) (\<lambda>selected.
     and_then (enrich od selected) (\<lambda>enriched. Inr (c, p, o1, enriched)))))"

section \<open>Step 3: loading, and the entry point\<close>

text \<open>
  The warehouse is the sequence of load jobs that succeeded, each a table id and the frame
  it appended (\<open>WRITE_APPEND\<close>); the standard output is the sequence of printed messages.
\<close>

datatype log_entry =
    Decoded string
  | Loaded string
  | ErrorProcessing error

record state =
  warehouse :: "(string \<times> frame) list"
  stdout :: "log_entry list"

definition print :: "log_entry \<Rightarrow> state \<Rightarrow> state" where
  "print m s = s\<lparr>stdout := stdout s @ [m]\<rparr>"

definition DATAWAREHOUSE :: string where
  "DATAWAREHOUSE = ''data-warehouse-441704.Ecommerce_DW''"

definition table_id :: "string \<Rightarrow> string" where
  "table_id table_name = DATAWAREHOUSE @ ''.'' @ table_name"

definition load_to_bigquery :: "'ev env \<Rightarrow> frame \<Rightarrow> string \<Rightarrow> state \<Rightarrow> (error + unit) \<times> state" where
  "load_to_bigquery E df table_name s =
     (case load_job E (table_id table_name) df of
        Some e \<Rightarrow> (Inl e, s)
      | None \<Rightarrow>
          (Inr (), print (Loaded (table_id table_name))
                     (s\<lparr>warehouse := warehouse s @ [(table_id table_name, df)]\<rparr>)))"

definition next_do ::
  "(state \<Rightarrow> (error + unit) \<times> state) \<Rightarrow> (state \<Rightarrow> (error + unit) \<times> state) \<Rightarrow>
   state \<Rightarrow> (error + unit) \<times> state" where
  "next_do m1 m2 s = (case m1 s of (Inl e, s') \<Rightarrow> (Inl e, s') | (Inr u, s') \<Rightarrow> m2 s')"

text \<open>The body of the \<open>try\<close> (lines 18 to 112).\<close>

definition try_body :: "'ev env \<Rightarrow> 'ev \<Rightarrow> state \<Rightarrow> (error + unit) \<times> state" where
  "try_body E event s =
     (case b64decode_utf8 E event of
        Inl e \<Rightarrow> (Inl e, s)
      | Inr pubsub_message \<Rightarrow>
          let s1 = print (Decoded pubsub_message) s in
          (case json_loads E pubsub_message of
             Inl e \<Rightarrow> (Inl e, s1)
           | Inr data \<Rightarrow>
               (case transform E (DataFrame data) of
                  Inl e \<Rightarrow> (Inl e, s1)
                | Inr (c, p, o1, od) \<Rightarrow>
                    next_do (load_to_bigquery E c ''Customers'')
                   (next_do (load_to_bigquery E p ''Products'')
                   (next_do (load_to_bigquery E o1 ''Orders'')
                            (load_to_bigquery E od ''OrderDetails''))) s1)))"

text \<open>
  How a call of the entry point ends: it returns (\<open>None\<close>, as every Python function that
  reaches its end), or an exception leaves it.
\<close>

datatype outcome = Returned | Raised error

text \<open>
  \<open>ETLpipeline(event, context)\<close>: the \<open>except Exception\<close> clause of line 114 prints the
  error, and the function then reaches its end.
\<close>

definition ETLpipeline :: "'ev env \<Rightarrow> 'ev \<Rightarrow> 'c \<Rightarrow> state \<Rightarrow> outcome \<times> state" where
  "ETLpipeline E event context s =
     (case try_body E event s of
        (Inl e, s') \<Rightarrow> (Returned, print (ErrorProcessing e) s')
      | (Inr u, s') \<Rightarrow> (Returned, s'))"

text \<open>The load jobs of one invocation that started in state \<open>s\<close> and ended in \<open>s'\<close>.\<close>

definition writes :: "state \<Rightarrow> state \<Rightarrow> (string \<times> frame) list" where
  "writes s s' = drop (length (warehouse s)) (warehouse s')"

text \<open>The four load jobs of lines 109 to 112, in their order.\<close>

definition jobs :: "frame \<Rightarrow> frame \<Rightarrow> frame \<Rightarrow> frame \<Rightarrow> (string \<times> frame) list" where
  "jobs c p o1 od =
     [(table_id ''Customers'', c), (table_id ''Products'', p),
      (table_id ''Orders'', o1), (table_id ''OrderDetails'', od)]"

definition table_ids :: "string list" where
  "table_ids = map table_id [''Customers'', ''Products'', ''Orders'', ''OrderDetails'']"

section \<open>Example inputs\<close>

definition example_fields :: "(string \<times> json) list" where
  "example_fields =
     [(''Customer ID'', JStr ''CG-12520''), (''Customer Name'', JStr ''Claire Gute''),
      (''Segment'', JStr ''Consumer''), (''Country'', JStr ''United States''),
      (''City'', JStr ''Henderson''), (''State'', JStr ''Kentucky''),
      (''Postal Code'', JNum 42420), (''Region'', JStr ''South''),
      (''Product ID'', JStr ''FUR-BO-10001798''), (''Category'', JStr ''Furniture''),
      (''Sub-Category'', JStr ''Bookcases''), (''Product Name'', JStr ''Bush Somerset Bookcase''),
      (''Order ID'', JStr ''CA-2016-152156''), (''Order Date'', JStr ''2016-11-08''),
      (''Ship Date'', JStr ''2016-11-11''), (''Ship Mode'', JStr ''Second Class''),
      (''Sales'', JNum (26196 / 100)), (''Quantity'', JNum 2), (''Discount'', JNum 0),
      (''Profit'', JNum (419136 / 10000))]"

definition example_record :: json where
  "example_record = JObj example_fields"

text \<open>The same record without its last field, \<open>Profit\<close>.\<close>

definition record_without_profit :: json where
  "record_without_profit = JObj (butlast example_fields)"

text \<open>The same record with a number where the customer's name is expected.\<close>

definition record_numeric_name :: json where
  "record_numeric_name =
     JObj (map (\<lambda>(k, v). if k = ''Customer Name'' then (k, JNum 5) else (k, v)) example_fields)"

text \<open>
  An environment in which the event is the message itself, three messages decode to the
  three records above, one date is known to the parser and every load job succeeds; and
  the same environment with a warehouse that refuses the Products table.
\<close>

definition example_env :: "string env" where
  "example_env =
     \<lparr>b64decode_utf8 = (\<lambda>event. Inr event),
      json_loads = (\<lambda>m. if m = ''record'' then Inr example_record
                         else if m = ''no profit'' then Inr record_without_profit
                         else if m = ''numeric name'' then Inr record_numeric_name
                         else Inl ValueError),
      pystr = (\<lambda>v. ''None''),
      to_datetime = (\<lambda>s. if s = ''2016-11-08'' then Some (2016, 11) else None),
      load_job = (\<lambda>t d. None)\<rparr>"

definition refusing_env :: "string env" where
  "refusing_env =
     example_env\<lparr>load_job :=
       (\<lambda>t d. if t = table_id ''Products'' then Some (GoogleAPIError ''Products'') else None)\<rparr>"

definition empty_state :: state where
  "empty_state = \<lparr>warehouse = [], stdout = []\<rparr>"

text \<open>The four tables that the example record gives.\<close>

definition example_customers :: frame where
  "example_customers =
     \<lparr>columns = customer_columns,
      rows = [[JStr ''CG-12520'', JStr ''Claire Gute'', JStr ''Consumer'', JStr ''United States'',
               JStr ''Henderson'', JStr ''Kentucky'', JNum 42420, JStr ''South'']]\<rparr>"

definition example_products :: frame where
  "example_products =
     \<lparr>columns = product_columns,
      rows = [[JStr ''FUR-BO-10001798'', JStr ''Furniture'', JStr ''Bookcases'',
               JStr ''Bush Somerset Bookcase'']]\<rparr>"

definition example_orders :: frame where
  "example_orders =
     \<lparr>columns = order_columns,
      rows = [[JStr ''CA-2016-152156'', JStr ''2016-11-08'', JStr ''2016-11-11'',
               JStr ''Second Class'']]\<rparr>"

definition example_orderDetails :: frame where
  "example_orderDetails =
     \<lparr>columns = orderDetail_columns @ map snd renaming,
      rows = [[JStr ''CA-2016-152156'', JStr ''FUR-BO-10001798'', JStr ''CG-12520'',
               JNum (26196 / 100), JNum 2, JNum 0, JNum (419136 / 10000),
               JNum 1, JNum 1, JNum (419136 / 10000), JNum 0, JNum 2, JNum (26196 / 100),
               JNum 1, JNum 2, JNum (419136 / 10000), JNum (26196 / 100),
               JNum 11, JNum 2016]]\<rparr>"

text \<open>
  A batch of three rows in which the customer \<open>C1\<close> occurs twice, with different
  attributes, and the Customers table it gives.
\<close>

definition example_batch :: frame where
  "example_batch =
     \<lparr>columns = customer_columns,
      rows = [[JStr ''C1'', JStr ''Ann'', JStr ''Consumer'', JStr ''France'', JStr ''Paris'',
               JStr ''IdF'', JNum 75001, JStr ''North''],
              [JStr ''C2'', JStr ''Bob'', JStr ''Corporate'', JStr ''France'', JStr ''Lyon'',
               JStr ''ARA'', JNum 69001, JStr ''South''],
              [JStr ''C1'', JStr ''Anna'', JStr ''Home Office'', JStr ''France'', JStr ''Nice'',
               JStr ''PACA'', JNum 6000, JStr ''South'']]\<rparr>"

definition example_batch_customers :: frame where
  "example_batch_customers = example_batch\<lparr>rows := take 2 (rows example_batch)\<rparr>"

text \<open>
  A left frame of two rows and a feature matrix that has a row for the first key only,
  with the result of their left merge.
\<close>

definition example_left :: frame where
  "example_left =
     \<lparr>columns = [''OrderDetail ID'', ''Sales''],
      rows = [[JStr ''O1_P1'', JNum 10], [JStr ''O2_P1'', JNum 20]]\<rparr>"

definition example_right :: fmatrix where
  "example_right =
     \<lparr>index_name = ''OrderDetail ID'', index = [JStr ''O1_P1''],
      features = \<lparr>columns = [''Order_Item_Count'', ''Order_Total_Sales''],
                  rows = [[JNum 1, JNum 10]]\<rparr>\<rparr>"

definition example_merged :: frame where
  "example_merged =
     \<lparr>columns = [''OrderDetail ID'', ''Sales'', ''Order_Item_Count'', ''Order_Total_Sales''],
      rows = [[JStr ''O1_P1'', JNum 10, JNum 1, JNum 10],
              [JStr ''O2_P1'', JNum 20, JNull, JNull]]\<rparr>"

text \<open>
  An entity set in which the product \<open>P2\<close> has no row of OrderDetails, the order \<open>O2\<close>
  has no date and one row of OrderDetails has no discount.
\<close>

definition example_es :: entityset where
  "example_es =
     \<lparr>Customers = \<lparr>columns = [''Customer ID''], rows = [[JStr ''C1'']]\<rparr>,
      Products = \<lparr>columns = [''Product ID''], rows = [[JStr ''P1''], [JStr ''P2'']]\<rparr>,
      Orders = \<lparr>columns = [''Order ID'', ''Order Date''],
                rows = [[JStr ''O1'', JStr ''2016-11-08''], [JStr ''O2'', JNull]]\<rparr>,
      OrderDetails =
        \<lparr>columns = orderDetail_columns @ [''OrderDetail ID''],
         rows = [[JStr ''O1'', JStr ''P1'', JStr ''C1'', JNum 10, JNum 1, JNum (1 / 2), JNum 2,
                  JStr ''O1_P1''],
                 [JStr ''O2'', JStr ''P1'', JStr ''C1'', JNum 20, JNum 2, JNull, JNum 4,
                  JStr ''O2_P1'']]\<rparr>\<rparr>"

section \<open>Facts about the frame operations\<close>

subsection \<open>Sequencing\<close>

lemma and_then_Inl [simp]: "and_then (Inl e) f = Inl e"
  by (simp add: and_then_def)

lemma and_then_Inr [simp]: "and_then (Inr x) f = f x"
  by (simp add: and_then_def)

lemma and_then_eq_Inr: "and_then m f = Inr y \<longleftrightarrow> (\<exists>x. m = Inr x \<and> f x = Inr y)"
  by (cases m) simp_all

subsection \<open>Columns and rows of the frame operations\<close>

lemma getitem_Inr:
  assumes "getitem df cs = Inr d"
  shows "columns d = cs" and "rows d = map (\<lambda>r. map (cell (columns df) r) cs) (rows df)"
    and "set cs \<subseteq> set (columns df)"
  using assms by (auto simp: getitem_def list_all_iff split: if_splits)

lemma drop_duplicates_Inr:
  assumes "drop_duplicates ks d = Inr d'"
  shows "columns d' = columns d"
    and "rows d' = keep_first (\<lambda>r. map (cell (columns d) r) ks) (rows d)"
  using assms by (auto simp: drop_duplicates_def split: if_splits)

lemma drop_columns_Inr:
  assumes "drop_columns cs d = Inr d'"
  shows "columns d' = filter (\<lambda>c. c \<notin> set cs) (columns d)"
    and "rows d' = map (\<lambda>r. map snd (filter (\<lambda>(c, v). c \<notin> set cs) (zip (columns d) r))) (rows d)"
  using assms by (auto simp: drop_columns_def split: if_splits)

lemma customers_df_Inr:
  assumes "customers_df df = Inr c"
  shows "\<exists>d. getitem df customer_columns = Inr d \<and> drop_duplicates [''Customer ID''] d = Inr c"
  using assms by (auto simp: customers_df_def and_then_eq_Inr reset_index_def)

lemma products_df_Inr:
  assumes "products_df df = Inr p"
  shows "\<exists>d. getitem df product_columns = Inr d \<and> drop_duplicates [''Product ID''] d = Inr p"
  using assms by (auto simp: products_df_def and_then_eq_Inr reset_index_def)

lemma orders_df_Inr:
  assumes "orders_df df = Inr o1"
  shows "\<exists>d. getitem df order_columns = Inr d \<and> drop_duplicates (columns d) d = Inr o1"
  using assms by (auto simp: orders_df_def and_then_eq_Inr reset_index_def)

lemma orderDetails_df_Inr:
  assumes "orderDetails_df E df = Inr od"
  shows "\<exists>d d'. getitem df orderDetail_columns = Inr d
           \<and> drop_duplicates [''Order ID'', ''Product ID''] d = Inr d'
           \<and> od = assign_OrderDetail_ID E d'"
  using assms by (auto simp: orderDetails_df_def and_then_eq_Inr reset_index_def)

lemma normalize_Inr:
  assumes "normalize E df = Inr (c, p, o1, od)"
  shows "customers_df df = Inr c" and "products_df df = Inr p" and "orders_df df = Inr o1"
    and "orderDetails_df E df = Inr od"
  using assms by (auto simp: normalize_def and_then_eq_Inr)

lemma normalize_columns:
  assumes "normalize E df = Inr (c, p, o1, od)"
  shows "columns c = customer_columns" and "columns p = product_columns"
    and "columns o1 = order_columns"
    and "columns od = orderDetail_columns @ [''OrderDetail ID'']"
proof -
  note n = normalize_Inr [OF assms]
  show "columns c = customer_columns"
    using customers_df_Inr [OF n(1)] by (auto simp: getitem_Inr(1) drop_duplicates_Inr(1))
  show "columns p = product_columns"
    using products_df_Inr [OF n(2)] by (auto simp: getitem_Inr(1) drop_duplicates_Inr(1))
  show "columns o1 = order_columns"
    using orders_df_Inr [OF n(3)] by (auto simp: getitem_Inr(1) drop_duplicates_Inr(1))
  show "columns od = orderDetail_columns @ [''OrderDetail ID'']"
    using orderDetails_df_Inr [OF n(4)]
    by (auto simp: getitem_Inr(1) drop_duplicates_Inr(1) assign_OrderDetail_ID_def)
qed

lemma selected_features_df_Inr:
  assumes "selected_features_df fm = Inr sel"
  shows "columns (features sel) = map snd renaming"
    and "rows (features sel) = map (\<lambda>r. map (cell (columns (features fm)) r) selected_names) (rows (features fm))"
    and "index sel = index fm" and "index_name sel = index_name fm"
    and "set selected_names \<subseteq> set (columns (features fm))"
proof -
  from assms obtain d where d: "getitem (features fm) selected_names = Inr d"
    and sel: "sel = rename_columns renaming (fm\<lparr>features := d\<rparr>)"
    by (auto simp: selected_features_df_def select_features_def and_then_eq_Inr)
  have "map (\<lambda>c. case map_of renaming c of Some n \<Rightarrow> n | None \<Rightarrow> c) selected_names = map snd renaming"
    by code_simp
  then show "columns (features sel) = map snd renaming"
    using getitem_Inr(1) [OF d] by (simp add: sel rename_columns_def)
  show "rows (features sel) = map (\<lambda>r. map (cell (columns (features fm)) r) selected_names) (rows (features fm))"
    using getitem_Inr(2) [OF d] by (simp add: sel rename_columns_def)
  show "index sel = index fm" "index_name sel = index_name fm"
    by (simp_all add: sel rename_columns_def)
  show "set selected_names \<subseteq> set (columns (features fm))"
    by (rule getitem_Inr(3) [OF d])
qed

lemma merge_left_Inr:
  assumes "merge_left left right key = Inr out"
  shows "columns out = columns left @ columns (features right)"
    and "rows out = concat (map (\<lambda>r. merge_row right (cell (columns left) r key) r) (rows left))"
  using assms by (auto simp: merge_left_def split: if_splits)

lemma transform_Inr:
  assumes "transform E df = Inr (c, p, o1, od)"
  shows "\<exists>od0 es sel merged.
           normalize E df = Inr (c, p, o1, od0) \<and> EntitySet c p o1 od0 = Inr es
         \<and> selected_features_df (dfs E es) = Inr sel
         \<and> merge_left od0 sel ''OrderDetail ID'' = Inr merged
         \<and> drop_columns [''OrderDetail ID''] merged = Inr od"
  using assms
  by (auto simp: transform_def and_then_eq_Inr enrich_def split: prod.splits)

lemma transform_columns:
  assumes "transform E df = Inr (c, p, o1, od)"
  shows "columns c = customer_columns" and "columns p = product_columns"
    and "columns o1 = order_columns"
    and "columns od = orderDetail_columns @ map snd renaming"
proof -
  from transform_Inr [OF assms] obtain od0 es sel merged where
      n: "normalize E df = Inr (c, p, o1, od0)"
    and sel: "selected_features_df (dfs E es) = Inr sel"
    and m: "merge_left od0 sel ''OrderDetail ID'' = Inr merged"
    and d: "drop_columns [''OrderDetail ID''] merged = Inr od"
    by blast
  show "columns c = customer_columns" "columns p = product_columns" "columns o1 = order_columns"
    using normalize_columns [OF n] by simp_all
  have "columns merged = (orderDetail_columns @ [''OrderDetail ID'']) @ map snd renaming"
    using merge_left_Inr(1) [OF m] normalize_columns(4) [OF n] selected_features_df_Inr(1) [OF sel]
    by simp
  moreover have "filter (\<lambda>c. c \<notin> set [''OrderDetail ID''])
      ((orderDetail_columns @ [''OrderDetail ID'']) @ map snd renaming)
      = orderDetail_columns @ map snd renaming"
    by code_simp
  ultimately show "columns od = orderDetail_columns @ map snd renaming"
    using drop_columns_Inr(1) [OF d] by simp
qed

section \<open>Facts about the entry point\<close>

lemma load_chain:
  assumes "next_do (load_to_bigquery E c ''Customers'')
          (next_do (load_to_bigquery E p ''Products'')
          (next_do (load_to_bigquery E o1 ''Orders'')
                   (load_to_bigquery E od ''OrderDetails''))) s1 = (r, s2)"
  shows "\<exists>n\<le>4. warehouse s2 = warehouse s1 @ take n (jobs c p o1 od)
             \<and> stdout s2 = stdout s1 @ map (\<lambda>j. Loaded (fst j)) (take n (jobs c p o1 od))
             \<and> (case r of Inr u \<Rightarrow> n = 4 | Inl e \<Rightarrow> n < 4)"
proof (cases "load_job E (table_id ''Customers'') c")
  case (Some e)
  with assms show ?thesis
    by (intro exI [of _ 0]) (auto simp: next_do_def load_to_bigquery_def)
next
  case c_ok: None
  show ?thesis
  proof (cases "load_job E (table_id ''Products'') p")
    case (Some e)
    with assms c_ok show ?thesis
      by (intro exI [of _ 1]) (auto simp: next_do_def load_to_bigquery_def print_def jobs_def)
  next
    case p_ok: None
    show ?thesis
    proof (cases "load_job E (table_id ''Orders'') o1")
      case (Some e)
      with assms c_ok p_ok show ?thesis
        by (intro exI [of _ 2]) (auto simp: next_do_def load_to_bigquery_def print_def jobs_def)
    next
      case o_ok: None
      show ?thesis
      proof (cases "load_job E (table_id ''OrderDetails'') od")
        case (Some e)
        with assms c_ok p_ok o_ok show ?thesis
          by (intro exI [of _ 3])
             (auto simp: next_do_def load_to_bigquery_def print_def jobs_def numeral_3_eq_3)
      next
        case None
        with assms c_ok p_ok o_ok show ?thesis
          by (intro exI [of _ 4]) (auto simp: next_do_def load_to_bigquery_def print_def jobs_def)
      qed
    qed
  qed
qed

text \<open>
  An invocation either fails before the first load job and leaves the warehouse as it was,
  or computes the four tables and runs the first \<open>n\<close> load jobs.
\<close>

lemma try_body_cases:
  assumes "try_body E event s = (r, s')"
  shows "(\<exists>e. r = Inl e \<and> warehouse s' = warehouse s)
       \<or> (\<exists>msg data c p o1 od n. b64decode_utf8 E event = Inr msg \<and> json_loads E msg = Inr data
              \<and> transform E (DataFrame data) = Inr (c, p, o1, od) \<and> n \<le> 4
              \<and> warehouse s' = warehouse s @ take n (jobs c p o1 od)
              \<and> stdout s' = stdout s @ Decoded msg # map (\<lambda>j. Loaded (fst j)) (take n (jobs c p o1 od))
              \<and> (case r of Inr u \<Rightarrow> n = 4 | Inl e \<Rightarrow> n < 4))"
proof (cases "b64decode_utf8 E event")
  case (Inl e)
  with assms show ?thesis by (auto simp: try_body_def)
next
  case msg: (Inr m)
  show ?thesis
  proof (cases "json_loads E m")
    case (Inl e)
    with assms msg show ?thesis by (auto simp: try_body_def print_def)
  next
    case data: (Inr d)
    show ?thesis
    proof (cases "transform E (DataFrame d)")
      case (Inl e)
      with assms msg data show ?thesis by (auto simp: try_body_def print_def)
    next
      case (Inr fs)
      obtain c p o1 od where fs: "fs = (c, p, o1, od)" by (cases fs) auto
      from assms msg data Inr fs
      have "next_do (load_to_bigquery E c ''Customers'')
           (next_do (load_to_bigquery E p ''Products'')
           (next_do (load_to_bigquery E o1 ''Orders'')
                    (load_to_bigquery E od ''OrderDetails''))) (print (Decoded m) s) = (r, s')"
        by (simp add: try_body_def)
      from load_chain [OF this] obtain n where "n \<le> 4"
        "warehouse s' = warehouse s @ take n (jobs c p o1 od)"
        "stdout s' = stdout s @ Decoded m # map (\<lambda>j. Loaded (fst j)) (take n (jobs c p o1 od))"
        "case r of Inr u \<Rightarrow> n = 4 | Inl e \<Rightarrow> n < 4"
        by (auto simp: print_def)
      with msg data Inr fs show ?thesis by blast
    qed
  qed
qed

lemma try_body_transform_fails:
  assumes "b64decode_utf8 E event = Inr msg" and "json_loads E msg = Inr data"
    and "transform E (DataFrame data) = Inl e"
  shows "try_body E event s = (Inl e, print (Decoded msg) s)"
  using assms by (simp add: try_body_def)

lemma ETLpipeline_Returned: "fst (ETLpipeline E event context s) = Returned"
  by (simp add: ETLpipeline_def split: prod.splits sum.splits)

lemma ETLpipeline_cases:
  assumes "ETLpipeline E event context s = (out, s')"
  shows "(\<exists>e. warehouse s' = warehouse s \<and> last (stdout s') = ErrorProcessing e)
       \<or> (\<exists>msg data c p o1 od n. b64decode_utf8 E event = Inr msg \<and> json_loads E msg = Inr data
              \<and> transform E (DataFrame data) = Inr (c, p, o1, od) \<and> n \<le> 4
              \<and> warehouse s' = warehouse s @ take n (jobs c p o1 od)
              \<and> (n < 4 \<longrightarrow> (\<exists>e. last (stdout s') = ErrorProcessing e))
              \<and> (n = 4 \<longrightarrow> stdout s' = stdout s @ Decoded msg # map (\<lambda>j. Loaded (fst j)) (jobs c p o1 od)))"
proof -
  obtain r s1 where body: "try_body E event s = (r, s1)" by (cases "try_body E event s") auto
  from try_body_cases [OF body] show ?thesis
  proof
    assume "\<exists>e. r = Inl e \<and> warehouse s1 = warehouse s"
    with assms body show ?thesis by (auto simp: ETLpipeline_def print_def)
  next
    assume "\<exists>msg data c p o1 od n. b64decode_utf8 E event = Inr msg \<and> json_loads E msg = Inr data
              \<and> transform E (DataFrame data) = Inr (c, p, o1, od) \<and> n \<le> 4
              \<and> warehouse s1 = warehouse s @ take n (jobs c p o1 od)
              \<and> stdout s1 = stdout s @ Decoded msg # map (\<lambda>j. Loaded (fst j)) (take n (jobs c p o1 od))
              \<and> (case r of Inr u \<Rightarrow> n = 4 | Inl e \<Rightarrow> n < 4)"
    then obtain msg data c p o1 od n where f: "b64decode_utf8 E event = Inr msg"
      "json_loads E msg = Inr data" "transform E (DataFrame data) = Inr (c, p, o1, od)" "n \<le> 4"
      "warehouse s1 = warehouse s @ take n (jobs c p o1 od)"
      "stdout s1 = stdout s @ Decoded msg # map (\<lambda>j. Loaded (fst j)) (take n (jobs c p o1 od))"
      "case r of Inr u \<Rightarrow> n = 4 | Inl e \<Rightarrow> n < 4"
      by blast
    have len: "length (jobs c p o1 od) = 4" by (simp add: jobs_def)
    show ?thesis
    proof (cases r)
      case (Inl e)
      with assms body have "s' = print (ErrorProcessing e) s1" by (simp add: ETLpipeline_def)
      moreover from Inl f(7) have "n < 4" by simp
      ultimately have "warehouse s' = warehouse s @ take n (jobs c p o1 od)"
        "n < 4 \<longrightarrow> (\<exists>e. last (stdout s') = ErrorProcessing e)"
        "n = 4 \<longrightarrow> stdout s' = stdout s @ Decoded msg # map (\<lambda>j. Loaded (fst j)) (jobs c p o1 od)"
        using f(5) by (simp_all add: print_def)
      with f(1-4) show ?thesis by blast
    next
      case (Inr u)
      with assms body have "s' = s1" by (simp add: ETLpipeline_def)
      moreover from Inr f(7) have "n = 4" by simp
      ultimately have "warehouse s' = warehouse s @ take n (jobs c p o1 od)"
        "n < 4 \<longrightarrow> (\<exists>e. last (stdout s') = ErrorProcessing e)"
        "n = 4 \<longrightarrow> stdout s' = stdout s @ Decoded msg # map (\<lambda>j. Loaded (fst j)) (jobs c p o1 od)"
        using f(5,6) len by simp_all
      with f(1-4) show ?thesis by blast
    qed
  qed
qed

lemma writes_append: "warehouse s' = warehouse s @ ws \<Longrightarrow> writes s s' = ws"
  by (simp add: writes_def)

subsection \<open>The example runs\<close>

lemma example_transform:
  "transform example_env (DataFrame example_record)
     = Inr (example_customers, example_products, example_orders, example_orderDetails)"
  by code_simp

lemma refusing_transform:
  "transform refusing_env (DataFrame example_record)
     = Inr (example_customers, example_products, example_orders, example_orderDetails)"
  by code_simp

lemma example_run:
  "ETLpipeline example_env ''record'' context empty_state
     = (Returned,
        \<lparr>warehouse = jobs example_customers example_products example_orders example_orderDetails,
         stdout = [Decoded ''record'', Loaded (table_id ''Customers''), Loaded (table_id ''Products''),
                   Loaded (table_id ''Orders''), Loaded (table_id ''OrderDetails'')]\<rparr>)"
proof -
  have "b64decode_utf8 example_env ''record'' = Inr ''record''"
    "json_loads example_env ''record'' = Inr example_record"
    "\<And>t d. load_job example_env t d = None"
    by (simp_all add: example_env_def)
  then show ?thesis
    by (simp add: ETLpipeline_def try_body_def example_transform next_do_def load_to_bigquery_def
        print_def jobs_def empty_state_def)
qed

lemma refusing_run:
  "ETLpipeline refusing_env ''record'' context empty_state
     = (Returned,
        \<lparr>warehouse = [(table_id ''Customers'', example_customers)],
         stdout = [Decoded ''record'', Loaded (table_id ''Customers''),
                   ErrorProcessing (GoogleAPIError ''Products'')]\<rparr>)"
proof -
  have "b64decode_utf8 refusing_env ''record'' = Inr ''record''"
    "json_loads refusing_env ''record'' = Inr example_record"
    "\<And>d. load_job refusing_env (table_id ''Customers'') d = None"
    "\<And>d. load_job refusing_env (table_id ''Products'') d = Some (GoogleAPIError ''Products'')"
    by (simp_all add: refusing_env_def example_env_def table_id_def)
  then show ?thesis
    by (simp add: ETLpipeline_def try_body_def refusing_transform next_do_def load_to_bigquery_def
        print_def empty_state_def)
qed

lemma empty_state_simps: "warehouse empty_state = []" "stdout empty_state = []"
  by (simp_all add: empty_state_def)

section \<open>The claims about the entry point\<close>

text \<open>
  Claim C1, as the specification states it: an invocation in which one of the four table
  writes does not occur ends with an outcome that is not success. The entry point has one
  outcome only. In the run below the warehouse refuses the Products table: the Customers
  table is loaded, the other three are not, and the call returns as the run in which all
  four tables are loaded does.
\<close>

theorem partial_load_returns_like_success:
  "map fst (writes empty_state (snd (ETLpipeline refusing_env ''record'' () empty_state)))
     = [table_id ''Customers'']
   \<and> fst (ETLpipeline refusing_env ''record'' () empty_state) = Returned
   \<and> map fst (writes empty_state (snd (ETLpipeline example_env ''record'' () empty_state)))
     = table_ids
   \<and> fst (ETLpipeline example_env ''record'' () empty_state) = Returned"
  by (simp add: refusing_run example_run writes_def empty_state_simps jobs_def table_ids_def)

text \<open>
  Claim C1, amended: in every invocation in which one of the four table writes does not
  occur, the entry point has caught the error and printed it as its last message, and it
  returns normally, as a successful invocation does; the tables loaded before the error
  stay loaded, and they are the first \<open>n < 4\<close> of the four.
\<close>

theorem ETLpipeline_swallows_errors:
  assumes "ETLpipeline E event context s = (out, s')"
    and "map fst (writes s s') \<noteq> table_ids"
  shows "out = Returned
       \<and> (\<exists>e. last (stdout s') = ErrorProcessing e)
       \<and> (\<exists>n<4. map fst (writes s s') = take n table_ids)"
proof -
  have out: "out = Returned"
    using ETLpipeline_Returned [of E event "context" s] assms(1) by simp
  from ETLpipeline_cases [OF assms(1)] show ?thesis
  proof
    assume "\<exists>e. warehouse s' = warehouse s \<and> last (stdout s') = ErrorProcessing e"
    then obtain e where "warehouse s' = warehouse s" "last (stdout s') = ErrorProcessing e"
      by blast
    then have "map fst (writes s s') = take 0 table_ids" "\<exists>e. last (stdout s') = ErrorProcessing e"
      by (simp_all add: writes_def)
    with out show ?thesis by (metis zero_less_numeral)
  next
    assume "\<exists>msg data c p o1 od n. b64decode_utf8 E event = Inr msg \<and> json_loads E msg = Inr data
              \<and> transform E (DataFrame data) = Inr (c, p, o1, od) \<and> n \<le> 4
              \<and> warehouse s' = warehouse s @ take n (jobs c p o1 od)
              \<and> (n < 4 \<longrightarrow> (\<exists>e. last (stdout s') = ErrorProcessing e))
              \<and> (n = 4 \<longrightarrow> stdout s' = stdout s @ Decoded msg # map (\<lambda>j. Loaded (fst j)) (jobs c p o1 od))"
    then obtain c p o1 od n where n: "n \<le> 4"
      and w: "warehouse s' = warehouse s @ take n (jobs c p o1 od)"
      and err: "n < 4 \<longrightarrow> (\<exists>e. last (stdout s') = ErrorProcessing e)"
      by blast
    have ids: "map fst (jobs c p o1 od) = table_ids"
      by (simp add: jobs_def table_ids_def)
    have written: "map fst (writes s s') = take n table_ids"
      using writes_append [OF w] by (simp add: ids [symmetric] take_map)
    have "n \<noteq> 4"
    proof
      assume "n = 4"
      with written have "map fst (writes s s') = table_ids" by (simp add: table_ids_def)
      with assms(2) show False by simp
    qed
    with n have "n < 4" by simp
    with err written out show ?thesis by blast
  qed
qed

theorem ETLpipeline_swallows_errors_witness:
  "map fst (writes empty_state (snd (ETLpipeline refusing_env ''record'' () empty_state))) \<noteq> table_ids
   \<and> fst (ETLpipeline refusing_env ''record'' () empty_state) = Returned
   \<and> (\<exists>e. last (stdout (snd (ETLpipeline refusing_env ''record'' () empty_state)))
            = ErrorProcessing e)
   \<and> (\<exists>n<4. map fst (writes empty_state (snd (ETLpipeline refusing_env ''record'' () empty_state)))
            = take n table_ids)"
proof -
  have run: "ETLpipeline refusing_env ''record'' () empty_state
      = (fst (ETLpipeline refusing_env ''record'' () empty_state),
         snd (ETLpipeline refusing_env ''record'' () empty_state))"
    by simp
  have missing: "map fst (writes empty_state (snd (ETLpipeline refusing_env ''record'' () empty_state)))
      \<noteq> table_ids"
    by (simp add: refusing_run writes_def empty_state_simps table_ids_def table_id_def)
  from ETLpipeline_swallows_errors [OF run missing] missing show ?thesis by simp
qed

text \<open>
  Claim C3: no table that an invocation loads has the column \<open>OrderDetail ID\<close>, and for
  every batch of rows the four tables computed from it are without that column: the
  Customers, Products and Orders tables never get it, and the OrderDetails table loses it
  before the load.
\<close>

theorem join_key_not_persisted:
  "(\<forall>j \<in> set (writes s (snd (ETLpipeline E event context s))).
       ''OrderDetail ID'' \<notin> set (columns (snd j)))
   \<and> (\<forall>c p o1 od. transform E df = Inr (c, p, o1, od) \<longrightarrow>
         ''OrderDetail ID'' \<notin> set (columns c) \<and> ''OrderDetail ID'' \<notin> set (columns p)
       \<and> ''OrderDetail ID'' \<notin> set (columns o1) \<and> ''OrderDetail ID'' \<notin> set (columns od))"
proof -
  have no_key: "''OrderDetail ID'' \<notin> set (columns c) \<and> ''OrderDetail ID'' \<notin> set (columns p)
       \<and> ''OrderDetail ID'' \<notin> set (columns o1) \<and> ''OrderDetail ID'' \<notin> set (columns od)"
    if "transform E d = Inr (c, p, o1, od)" for d c p o1 od
  proof -
    have "''OrderDetail ID'' \<notin> set customer_columns" "''OrderDetail ID'' \<notin> set product_columns"
      "''OrderDetail ID'' \<notin> set order_columns"
      "''OrderDetail ID'' \<notin> set (orderDetail_columns @ map snd renaming)"
      by (simp_all add: customer_columns_def product_columns_def order_columns_def
          orderDetail_columns_def renaming_def)
    then show ?thesis using transform_columns [OF that] by simp
  qed
  have "''OrderDetail ID'' \<notin> set (columns (snd j))"
    if j: "j \<in> set (writes s (snd (ETLpipeline E event context s)))" for j
  proof -
    obtain out s' where run: "ETLpipeline E event context s = (out, s')"
      by (cases "ETLpipeline E event context s") auto
    from ETLpipeline_cases [OF run] show ?thesis
    proof
      assume "\<exists>e. warehouse s' = warehouse s \<and> last (stdout s') = ErrorProcessing e"
      then have "writes s s' = []" by (auto simp: writes_def)
      with j run show ?thesis by simp
    next
      assume "\<exists>msg data c p o1 od n. b64decode_utf8 E event = Inr msg \<and> json_loads E msg = Inr data
              \<and> transform E (DataFrame data) = Inr (c, p, o1, od) \<and> n \<le> 4
              \<and> warehouse s' = warehouse s @ take n (jobs c p o1 od)
              \<and> (n < 4 \<longrightarrow> (\<exists>e. last (stdout s') = ErrorProcessing e))
              \<and> (n = 4 \<longrightarrow> stdout s' = stdout s @ Decoded msg # map (\<lambda>j. Loaded (fst j)) (jobs c p o1 od))"
      then obtain data c p o1 od n where t: "transform E (DataFrame data) = Inr (c, p, o1, od)"
        and w: "warehouse s' = warehouse s @ take n (jobs c p o1 od)"
        by blast
      from j run writes_append [OF w] have "j \<in> set (take n (jobs c p o1 od))" by simp
      then have "j \<in> set (jobs c p o1 od)" by (rule in_set_takeD)
      then have "snd j \<in> {c, p, o1, od}" by (auto simp: jobs_def)
      with no_key [OF t] show ?thesis by auto
    qed
  qed
  with no_key show ?thesis by blast
qed

theorem join_key_not_persisted_witness:
  "length (writes empty_state (snd (ETLpipeline example_env ''record'' () empty_state))) = 4
   \<and> list_all (\<lambda>j. ''OrderDetail ID'' \<notin> set (columns (snd j)))
        (writes empty_state (snd (ETLpipeline example_env ''record'' () empty_state)))
   \<and> transform example_env (DataFrame example_record)
        = Inr (example_customers, example_products, example_orders, example_orderDetails)
   \<and> ''OrderDetail ID'' \<notin> set (columns example_customers)
   \<and> ''OrderDetail ID'' \<notin> set (columns example_products)
   \<and> ''OrderDetail ID'' \<notin> set (columns example_orders)
   \<and> ''OrderDetail ID'' \<notin> set (columns example_orderDetails)"
  using join_key_not_persisted [of empty_state example_env "''record''" "()" "DataFrame example_record"]
    example_transform
  by (simp add: example_run writes_def empty_state_simps jobs_def list_all_iff)

section \<open>The claims about the four tables\<close>

subsection \<open>A missing field\<close>

lemma getitem_missing:
  assumes "f \<in> set cs" and "f \<notin> set (columns df)"
  shows "\<exists>e. getitem df cs = Inl e"
  using assms by (auto simp: getitem_def list_all_iff)

lemma normalize_missing_field:
  assumes "f \<in> set (customer_columns @ product_columns @ order_columns @ orderDetail_columns)"
    and "f \<notin> set (columns df)"
  shows "\<exists>e. normalize E df = Inl e"
proof -
  from assms(1) consider "f \<in> set customer_columns" | "f \<in> set product_columns"
    | "f \<in> set order_columns" | "f \<in> set orderDetail_columns"
    by auto
  then have "(\<exists>e. customers_df df = Inl e) \<or> (\<exists>e. products_df df = Inl e)
      \<or> (\<exists>e. orders_df df = Inl e) \<or> (\<exists>e. orderDetails_df E df = Inl e)"
  proof cases
    case 1
    from getitem_missing [OF this assms(2)] show ?thesis by (auto simp: customers_df_def)
  next
    case 2
    from getitem_missing [OF this assms(2)] show ?thesis by (auto simp: products_df_def)
  next
    case 3
    from getitem_missing [OF this assms(2)] show ?thesis by (auto simp: orders_df_def)
  next
    case 4
    from getitem_missing [OF this assms(2)] show ?thesis by (auto simp: orderDetails_df_def)
  qed
  then show ?thesis
    by (cases "customers_df df"; cases "products_df df"; cases "orders_df df";
        cases "orderDetails_df E df") (auto simp: normalize_def)
qed

lemma transform_normalize_fails: "normalize E df = Inl e \<Longrightarrow> transform E df = Inl e"
  by (simp add: transform_def)

text \<open>
  Claim C2, as the specification states it: a record with a field of the wrong type fails
  and writes nothing. The record below has a number where the customer's name is expected;
  it is processed without an error, all four tables are loaded, and the number is in the
  Customers table.
\<close>

theorem wrong_type_is_loaded:
  "stdout (snd (ETLpipeline example_env ''numeric name'' () empty_state))
     = [Decoded ''numeric name'', Loaded (table_id ''Customers''), Loaded (table_id ''Products''),
        Loaded (table_id ''Orders''), Loaded (table_id ''OrderDetails'')]
   \<and> map fst (writes empty_state (snd (ETLpipeline example_env ''numeric name'' () empty_state)))
     = table_ids
   \<and> column (snd (hd (writes empty_state (snd (ETLpipeline example_env ''numeric name'' () empty_state)))))
        ''Customer Name'' = [JNum 5]"
  by code_simp

text \<open>
  Claim C2, amended: for every input record in which a required field is absent, the
  selection of the columns raises before any load job; the entry point catches the error,
  prints it and returns, and the invocation writes to none of the four tables. The types
  of the fields are not checked; the error is the one the failing step raises (a
  \<open>KeyError\<close> for a record like the example without \<open>Profit\<close>).
\<close>

theorem missing_field_no_writes:
  assumes "b64decode_utf8 E event = Inr msg" and "json_loads E msg = Inr data"
    and "f \<in> set (customer_columns @ product_columns @ order_columns @ orderDetail_columns)"
    and "f \<notin> set (columns (DataFrame data))"
  shows "writes s (snd (ETLpipeline E event context s)) = []
       \<and> (\<exists>e. normalize E (DataFrame data) = Inl e
              \<and> ETLpipeline E event context s
                  = (Returned, s\<lparr>stdout := stdout s @ [Decoded msg, ErrorProcessing e]\<rparr>))"
proof -
  from normalize_missing_field [OF assms(3,4)]
  obtain e where e: "normalize E (DataFrame data) = Inl e" by blast
  have "try_body E event s = (Inl e, print (Decoded msg) s)"
    using assms(1,2) transform_normalize_fails [OF e] by (rule try_body_transform_fails)
  then have run: "ETLpipeline E event context s
      = (Returned, s\<lparr>stdout := stdout s @ [Decoded msg, ErrorProcessing e]\<rparr>)"
    by (simp add: ETLpipeline_def print_def)
  then have "writes s (snd (ETLpipeline E event context s)) = []"
    by (simp add: writes_def)
  with e run show ?thesis by blast
qed

theorem missing_field_no_writes_witness:
  "b64decode_utf8 example_env ''no profit'' = Inr ''no profit''
   \<and> json_loads example_env ''no profit'' = Inr record_without_profit
   \<and> ''Profit'' \<in> set (customer_columns @ product_columns @ order_columns @ orderDetail_columns)
   \<and> ''Profit'' \<notin> set (columns (DataFrame record_without_profit))
   \<and> writes empty_state (snd (ETLpipeline example_env ''no profit'' () empty_state)) = []
   \<and> normalize example_env (DataFrame record_without_profit) = Inl (KeyError [''Profit''])
   \<and> ETLpipeline example_env ''no profit'' () empty_state
        = (Returned, empty_state\<lparr>stdout := [Decoded ''no profit'',
                                               ErrorProcessing (KeyError [''Profit''])]\<rparr>)"
proof -
  have h1: "b64decode_utf8 example_env ''no profit'' = Inr ''no profit''"
    and h2: "json_loads example_env ''no profit'' = Inr record_without_profit"
    by (simp_all add: example_env_def)
  have h3: "''Profit'' \<in> set (customer_columns @ product_columns @ order_columns @ orderDetail_columns)"
    by (simp add: orderDetail_columns_def)
  have h4: "''Profit'' \<notin> set (columns (DataFrame record_without_profit))"
    by code_simp
  have h5: "normalize example_env (DataFrame record_without_profit) = Inl (KeyError [''Profit''])"
    by code_simp
  from missing_field_no_writes [OF h1 h2 h3 h4, of empty_state "()"] h1 h2 h3 h4 h5
  show ?thesis by (simp add: empty_state_simps writes_def)
qed

subsection \<open>The synthetic key\<close>

lemma separated_eq:
  assumes "c \<notin> set a" and "c \<notin> set a'" and "a @ c # b = a' @ c # b'"
  shows "a = a' \<and> b = b'"
proof -
  have "takeWhile (\<lambda>x. x \<noteq> c) (a @ c # b) = a" "takeWhile (\<lambda>x. x \<noteq> c) (a' @ c # b') = a'"
    using assms(1,2) by (auto simp: takeWhile_tail)
  with assms(3) have "a = a'" by simp
  with assms(3) show ?thesis by simp
qed

text \<open>
  Claim C4, as the specification states it: two different pairs of an order ID and a
  product ID never have the same key. The separator may occur in an ID, and nothing
  checks or escapes it: the two pairs below have one key.
\<close>

theorem orderDetail_ID_collision:
  "orderDetail_ID example_env (JStr ''A_B'') (JStr ''C'')
     = orderDetail_ID example_env (JStr ''A'') (JStr ''B_C'')
   \<and> (JStr ''A_B'', JStr ''C'') \<noteq> (JStr ''A'', JStr ''B_C'')"
  by (simp add: orderDetail_ID_def astype_str_def)

text \<open>
  Claim C4, amended: the key is the text of the order ID, an underscore and the text of
  the product ID, with no check and no escaping (the text of a string is the string);
  two pairs whose order IDs have no underscore in their texts and whose keys are equal
  have the same texts, so that different pairs of such strings have different keys.
\<close>

theorem orderDetail_ID_injective:
  "orderDetail_ID E order_id product_id = astype_str E order_id @ ''_'' @ astype_str E product_id
   \<and> astype_str E (JStr a) = a
   \<and> (CHR ''_'' \<notin> set (astype_str E order_id) \<longrightarrow> CHR ''_'' \<notin> set (astype_str E order_id') \<longrightarrow>
        orderDetail_ID E order_id product_id = orderDetail_ID E order_id' product_id' \<longrightarrow>
        astype_str E order_id = astype_str E order_id'
        \<and> astype_str E product_id = astype_str E product_id')"
  using separated_eq [of "CHR ''_''" "astype_str E order_id" "astype_str E order_id'"
      "astype_str E product_id" "astype_str E product_id'"]
  by (simp add: orderDetail_ID_def astype_str_def)

theorem orderDetail_ID_injective_witness:
  "CHR ''_'' \<notin> set (astype_str example_env (JStr ''CA-2016-152156''))
   \<and> orderDetail_ID example_env (JStr ''CA-2016-152156'') (JStr ''FUR_BO'')
       = orderDetail_ID example_env (JStr ''CA-2016-152156'') (JStr ''FUR_BO'')
   \<and> orderDetail_ID example_env (JStr ''CA-2016-152156'') (JStr ''FUR_BO'')
       = ''CA-2016-152156_FUR_BO''
   \<and> astype_str example_env (JStr ''FUR_BO'') = ''FUR_BO''"
  using orderDetail_ID_injective [of example_env "JStr ''CA-2016-152156''" "JStr ''FUR_BO''"
      "''FUR_BO''" "JStr ''CA-2016-152156''" "JStr ''FUR_BO''"]
  by (simp add: astype_str_def)

subsection \<open>Duplicates\<close>

lemma keep_first_Cons:
  "keep_first k (x # xs) = x # keep_first k (filter (\<lambda>y. k y \<noteq> k x) xs)"
  by (rule keep_first.simps)

lemma keep_first_subset: "set (keep_first k xs) \<subseteq> set xs"
proof (induction k xs rule: keep_first.induct)
  case (1 k)
  show ?case by (simp only: keep_first.simps list.set subset_refl)
next
  case (2 k x xs)
  define ys where "ys = filter (\<lambda>y. k y \<noteq> k x) xs"
  have step: "keep_first k (x # xs) = x # keep_first k ys"
    unfolding ys_def by (rule keep_first_Cons)
  have "set (keep_first k ys) \<subseteq> set ys"
    unfolding ys_def by (rule 2)
  moreover have "set ys \<subseteq> set xs"
    unfolding ys_def by (rule filter_is_subset)
  ultimately have "set (keep_first k ys) \<subseteq> set xs" by (rule subset_trans)
  then show ?case unfolding step by auto
qed

lemma keep_first_keys: "k ` set (keep_first k xs) = k ` set xs"
proof (induction k xs rule: keep_first.induct)
  case (1 k)
  show ?case by (simp only: keep_first.simps)
next
  case (2 k x xs)
  define ys where "ys = filter (\<lambda>y. k y \<noteq> k x) xs"
  have step: "keep_first k (x # xs) = x # keep_first k ys"
    unfolding ys_def by (rule keep_first_Cons)
  have ih: "k ` set (keep_first k ys) = k ` set ys"
    unfolding ys_def by (rule 2)
  have "k ` set ys = k ` set xs - {k x}"
    unfolding ys_def by auto
  with ih have "k ` set (keep_first k ys) = k ` set xs - {k x}" by (rule trans)
  then show ?case unfolding step by auto
qed

lemma keep_first_distinct: "distinct (map k (keep_first k xs))"
proof (induction k xs rule: keep_first.induct)
  case (1 k)
  show ?case by (simp only: keep_first.simps list.map distinct.simps)
next
  case (2 k x xs)
  define ys where "ys = filter (\<lambda>y. k y \<noteq> k x) xs"
  have step: "keep_first k (x # xs) = x # keep_first k ys"
    unfolding ys_def by (rule keep_first_Cons)
  have ih: "distinct (map k (keep_first k ys))"
    unfolding ys_def by (rule 2)
  have "k x \<notin> k ` set ys"
    unfolding ys_def by auto
  then have "k x \<notin> k ` set (keep_first k ys)"
    unfolding keep_first_keys [of k ys] .
  with ih show ?case unfolding step by simp
qed

lemma find_filter_other:
  "a \<noteq> b \<Longrightarrow> find (\<lambda>z. k z = a) (filter (\<lambda>z. k z \<noteq> b) xs) = find (\<lambda>z. k z = a) xs"
  by (induction xs) auto

lemma find_Cons_same: "find (\<lambda>z. k z = k x) (x # xs) = Some x"
  by simp

lemma find_Cons_other: "k x \<noteq> a \<Longrightarrow> find (\<lambda>z. k z = a) (x # xs) = find (\<lambda>z. k z = a) xs"
  by simp

lemma keep_first_find:
  "y \<in> set (keep_first k xs) \<Longrightarrow> find (\<lambda>x. k x = k y) xs = Some y"
proof (induction k xs arbitrary: y rule: keep_first.induct)
  case (1 k)
  then show ?case by (simp only: keep_first.simps list.set empty_iff)
next
  case (2 k x xs)
  define ys where "ys = filter (\<lambda>z. k z \<noteq> k x) xs"
  have step: "keep_first k (x # xs) = x # keep_first k ys"
    unfolding ys_def by (rule keep_first_Cons)
  have ih: "y \<in> set (keep_first k ys) \<Longrightarrow> find (\<lambda>z. k z = k y) ys = Some y"
    unfolding ys_def by (rule 2(1))
  have "y \<in> set (x # keep_first k ys)"
    using 2(2) by (simp only: step)
  then have mem: "y = x \<or> y \<in> set (keep_first k ys)"
    by (simp only: list.set insert_iff)
  show ?case
  proof (cases "y = x")
    case True
    show ?thesis unfolding True by (rule find_Cons_same)
  next
    case False
    with mem have in_rest: "y \<in> set (keep_first k ys)" by blast
    have "y \<in> set ys" by (rule subsetD [OF keep_first_subset in_rest])
    then have "y \<in> set xs \<and> k y \<noteq> k x" unfolding ys_def by simp
    then have neq: "k y \<noteq> k x" and neq': "k x \<noteq> k y" by auto
    have "find (\<lambda>z. k z = k y) (x # xs) = find (\<lambda>z. k z = k y) xs"
      using neq' by (rule find_Cons_other [of k x "k y" xs])
    also have "\<dots> = find (\<lambda>z. k z = k y) ys"
      unfolding ys_def using neq by (rule find_filter_other [of "k y" "k x" k xs, symmetric])
    also have "\<dots> = Some y" using in_rest by (rule ih)
    finally show ?thesis .
  qed
qed

lemma keep_first_single: "keep_first k [x] = [x]"
  by (simp only: keep_first.simps filter.simps)

lemma cell_map: "c \<in> set cs \<Longrightarrow> cell cs (map f cs) c = f c"
  by (simp add: cell_def map_of_zip_map)

text \<open>
  Claim C5: for every batch, the Customers table has no Customer ID twice, it has the
  Customer IDs of the batch, and each of its rows is the first row of the batch
  (projected on the customer columns) with its Customer ID.
\<close>

theorem customers_first_seen:
  assumes "customers_df df = Inr c"
  shows "\<exists>d. getitem df customer_columns = Inr d
           \<and> distinct (column c ''Customer ID'')
           \<and> set (column c ''Customer ID'') = set (column df ''Customer ID'')
           \<and> (\<forall>r \<in> set (rows c).
                find (\<lambda>x. cell (columns d) x ''Customer ID'' = cell (columns d) r ''Customer ID'')
                  (rows d) = Some r)"
proof -
  from customers_df_Inr [OF assms] obtain d where d: "getitem df customer_columns = Inr d"
    and dd: "drop_duplicates [''Customer ID''] d = Inr c"
    by blast
  define k where "k = (\<lambda>r. cell (columns d) r ''Customer ID'')"
  define K where "K = (\<lambda>r. [k r])"
  have cols: "columns c = columns d" and rows_c: "rows c = keep_first K (rows d)"
    using drop_duplicates_Inr [OF dd] by (simp_all add: K_def k_def)
  have kK: "k = (\<lambda>r. hd (K r))" by (simp add: K_def)
  have col_c: "column c ''Customer ID'' = map k (rows c)"
    by (simp add: column_def cols k_def)
  have "distinct (map K (keep_first K (rows d)))" by (rule keep_first_distinct)
  then have "distinct (map (\<lambda>v. [v]) (map k (rows c)))"
    by (simp add: rows_c K_def comp_def)
  then have distinct: "distinct (column c ''Customer ID'')"
    unfolding col_c using distinct_map [of "\<lambda>v. [v]" "map k (rows c)"] by blast
  have "K ` set (rows c) = K ` set (rows d)"
    unfolding rows_c by (rule keep_first_keys)
  then have "hd ` K ` set (rows c) = hd ` K ` set (rows d)" by (rule arg_cong)
  then have img: "k ` set (rows c) = k ` set (rows d)"
    by (simp add: image_image K_def)
  have col_d: "column d ''Customer ID'' = map k (rows d)"
    by (simp add: column_def k_def)
  have proj: "column d ''Customer ID'' = column df ''Customer ID''"
  proof -
    have "''Customer ID'' \<in> set customer_columns" by (simp add: customer_columns_def)
    then show ?thesis
      using getitem_Inr(1,2) [OF d] by (simp add: column_def comp_def cell_map)
  qed
  have "set (column c ''Customer ID'') = k ` set (rows c)" by (simp add: col_c)
  also have "\<dots> = k ` set (rows d)" by (rule img)
  also have "\<dots> = set (column d ''Customer ID'')" by (simp add: col_d)
  also have "\<dots> = set (column df ''Customer ID'')" by (simp only: proj)
  finally have same: "set (column c ''Customer ID'') = set (column df ''Customer ID'')" .
  have first: "find (\<lambda>x. k x = k r) (rows d) = Some r" if "r \<in> set (rows c)" for r
  proof -
    from that have "r \<in> set (keep_first K (rows d))" by (simp only: rows_c)
    then have "find (\<lambda>x. K x = K r) (rows d) = Some r" by (rule keep_first_find)
    then show ?thesis by (simp add: K_def)
  qed
  from d distinct same first show ?thesis unfolding k_def by blast
qed

theorem customers_first_seen_witness:
  "customers_df example_batch = Inr example_batch_customers
   \<and> column example_batch ''Customer ID'' = [JStr ''C1'', JStr ''C2'', JStr ''C1'']
   \<and> column example_batch_customers ''Customer ID'' = [JStr ''C1'', JStr ''C2'']
   \<and> column example_batch_customers ''Customer Name'' = [JStr ''Ann'', JStr ''Bob'']
   \<and> (\<exists>d. getitem example_batch customer_columns = Inr d
          \<and> distinct (column example_batch_customers ''Customer ID'')
          \<and> set (column example_batch_customers ''Customer ID'')
               = set (column example_batch ''Customer ID'')
          \<and> (\<forall>r \<in> set (rows example_batch_customers).
                find (\<lambda>x. cell (columns d) x ''Customer ID'' = cell (columns d) r ''Customer ID'')
                  (rows d) = Some r))"
proof -
  have h: "customers_df example_batch = Inr example_batch_customers" by code_simp
  have "column example_batch ''Customer ID'' = [JStr ''C1'', JStr ''C2'', JStr ''C1'']"
    "column example_batch_customers ''Customer ID'' = [JStr ''C1'', JStr ''C2'']"
    "column example_batch_customers ''Customer Name'' = [JStr ''Ann'', JStr ''Bob'']"
    by code_simp+
  with customers_first_seen [OF h] h show ?thesis by blast
qed

subsection \<open>The merge\<close>

lemma EntitySet_Inr:
  assumes "EntitySet c p o1 od = Inr es"
  shows "es = \<lparr>Customers = c, Products = p, Orders = o1, OrderDetails = od\<rparr>"
    and "distinct (column od ''OrderDetail ID'')"
  using assms
  by (auto simp: EntitySet_def add_dataframe_def and_then_eq_Inr split: if_splits)

lemma dfs_simps:
  "index (dfs E es) = column (OrderDetails es) ''OrderDetail ID''"
  "index_name (dfs E es) = ''OrderDetail ID''"
  "columns (features (dfs E es)) = map fst (generated_features E es)"
  "rows (features (dfs E es))
     = map (\<lambda>r. map (\<lambda>f. snd f r) (generated_features E es)) (rows (OrderDetails es))"
  by (simp_all add: dfs_def Let_def)

lemma matches_unique:
  assumes "distinct (map kf xs)" and "x \<in> set xs"
  shows "map snd (filter (\<lambda>(i, m). i = kf x) (zip (map kf xs) (map g xs))) = [g x]"
  using assms
proof (induction xs)
  case Nil
  then show ?case by simp
next
  case (Cons y ys)
  show ?case
  proof (cases "x = y")
    case True
    have "kf y \<notin> kf ` set ys" using Cons.prems(1) by simp
    then have "filter (\<lambda>(i, m). i = kf y) (zip (map kf ys) (map g ys)) = []"
      by (auto simp: filter_empty_conv dest!: set_zip_leftD)
    with True show ?thesis by simp
  next
    case False
    with Cons.prems have in_ys: "x \<in> set ys" and d: "distinct (map kf ys)" by simp_all
    from in_ys Cons.prems(1) have "kf y \<noteq> kf x" by auto
    with Cons.IH [OF d in_ys] show ?thesis by simp
  qed
qed

lemma concat_singletons:
  "(\<And>x. x \<in> set xs \<Longrightarrow> F x = [G x]) \<Longrightarrow> concat (map F xs) = map G xs"
  by (induction xs) simp_all

lemma filter_fst_distinct:
  "distinct (map fst ps) \<Longrightarrow>
   map snd (filter (\<lambda>(i, m). i = k) ps) = (case map_of ps k of None \<Rightarrow> [] | Some m \<Rightarrow> [m])"
proof (induction ps)
  case Nil
  then show ?case by simp
next
  case (Cons q ps)
  obtain i m where q: "q = (i, m)" by (cases q)
  show ?case
  proof (cases "i = k")
    case True
    with Cons.prems q have "k \<notin> fst ` set ps" by simp
    then have "filter (\<lambda>(i, m). i = k) ps = []"
      by (force simp: filter_empty_conv)
    with True q show ?thesis by simp
  next
    case False
    with Cons q show ?thesis by simp
  qed
qed

lemma merge_row_distinct:
  assumes "distinct (index R)"
  shows "merge_row R k r =
     [r @ (case map_of (zip (index R) (rows (features R))) k of
             None \<Rightarrow> replicate (length (columns (features R))) JNull
           | Some m \<Rightarrow> m)]"
proof -
  have "distinct (map fst (zip (index R) (rows (features R))))"
    using assms by (simp add: map_fst_zip_take)
  from filter_fst_distinct [OF this, of k]
  show ?thesis by (simp add: merge_row_def matches_def split: option.splits)
qed

lemma drop_key_row:
  assumes "length r = length cs" and "key \<notin> set cs" and "key \<notin> set fcs"
    and "length fs = length fcs"
  shows "map snd (filter (\<lambda>(c, v). c \<notin> set [key]) (zip ((cs @ [key]) @ fcs) ((r @ [kv]) @ fs)))
         = r @ fs"
proof -
  have z: "zip ((cs @ [key]) @ fcs) ((r @ [kv]) @ fs) = zip cs r @ [(key, kv)] @ zip fcs fs"
    using assms(1) by simp
  have a: "filter (\<lambda>(c, v). c \<notin> set [key]) (zip cs r) = zip cs r"
    using assms(2) by (auto simp: filter_id_conv dest!: set_zip_leftD)
  have b: "filter (\<lambda>(c, v). c \<notin> set [key]) (zip fcs fs) = zip fcs fs"
    using assms(3) by (auto simp: filter_id_conv dest!: set_zip_leftD)
  have "filter (\<lambda>(c, v). c \<notin> set [key]) (zip ((cs @ [key]) @ fcs) ((r @ [kv]) @ fs))
        = zip cs r @ zip fcs fs"
    unfolding z filter_append a b by simp
  then show ?thesis using assms(1,4) by simp
qed

lemma orderDetails_df_rows:
  assumes "orderDetails_df E df = Inr od0"
  shows "\<exists>d. columns d = orderDetail_columns \<and> (\<forall>r \<in> set (rows d). length r = 7)
           \<and> od0 = assign_OrderDetail_ID E d"
proof -
  from orderDetails_df_Inr [OF assms] obtain d d' where
      g: "getitem df orderDetail_columns = Inr d"
    and dd: "drop_duplicates [''Order ID'', ''Product ID''] d = Inr d'"
    and od0: "od0 = assign_OrderDetail_ID E d'"
    by blast
  have "length r = 7" if "r \<in> set (rows d)" for r
    using that getitem_Inr(2) [OF g] by (auto simp: orderDetail_columns_def)
  moreover have "set (rows d') \<subseteq> set (rows d)"
    using drop_duplicates_Inr(2) [OF dd] keep_first_subset by metis
  ultimately have "\<forall>r \<in> set (rows d'). length r = 7" by blast
  moreover have "columns d' = orderDetail_columns"
    using drop_duplicates_Inr(1) [OF dd] getitem_Inr(1) [OF g] by simp
  ultimately show ?thesis using od0 by blast
qed

text \<open>
  The rows of the enriched OrderDetails table: each row of the normalizer's OrderDetails
  table, in its order, without its key and followed by the selected features of that row.
\<close>

lemma enriched_rows:
  assumes "transform E df = Inr (c, p, o1, od)"
  shows "\<exists>od0 es. orderDetails_df E df = Inr od0
           \<and> es = \<lparr>Customers = c, Products = p, Orders = o1, OrderDetails = od0\<rparr>
           \<and> normalize E df = Inr (c, p, o1, od0)
           \<and> set selected_names \<subseteq> set (map fst (generated_features E es))
           \<and> (\<forall>r \<in> set (rows od0). length r = 8)
           \<and> rows od = map (\<lambda>r. butlast r @
                  map (cell (map fst (generated_features E es))
                         (map (\<lambda>f. snd f r) (generated_features E es))) selected_names)
                (rows od0)"
proof -
  from transform_Inr [OF assms] obtain od0 es sel merged where
      n: "normalize E df = Inr (c, p, o1, od0)"
    and es: "EntitySet c p o1 od0 = Inr es"
    and sel: "selected_features_df (dfs E es) = Inr sel"
    and m: "merge_left od0 sel ''OrderDetail ID'' = Inr merged"
    and d: "drop_columns [''OrderDetail ID''] merged = Inr od"
    by blast
  have od0: "orderDetails_df E df = Inr od0" by (rule normalize_Inr(4) [OF n])
  from orderDetails_df_rows [OF od0] obtain d7 where
      cols7: "columns d7 = orderDetail_columns"
    and len7: "\<forall>r \<in> set (rows d7). length r = 7"
    and assign: "od0 = assign_OrderDetail_ID E d7"
    by blast
  define fs where "fs = generated_features E es"
  define g where "g = (\<lambda>r. map (cell (map fst fs) (map (\<lambda>f. snd f r) fs)) selected_names)"
  define kf where "kf = (\<lambda>r. cell (columns od0) r ''OrderDetail ID'')"
  define dropkey :: "json list \<Rightarrow> json list" where "dropkey = (\<lambda>r. map snd (filter (\<lambda>(c, v). c \<notin> set [''OrderDetail ID''])
      (zip (columns merged) r)))"
  have es_eq: "es = \<lparr>Customers = c, Products = p, Orders = o1, OrderDetails = od0\<rparr>"
    and dist: "distinct (column od0 ''OrderDetail ID'')"
    using EntitySet_Inr [OF es] by simp_all
  have OD: "OrderDetails es = od0" by (simp add: es_eq)
  have dist': "distinct (map kf (rows od0))"
    using dist by (simp add: column_def kf_def)
  have idx: "index sel = map kf (rows od0)"
    using selected_features_df_Inr(3) [OF sel] by (simp add: dfs_simps OD column_def kf_def)
  have frows: "rows (features sel) = map g (rows od0)"
    using selected_features_df_Inr(2) [OF sel] by (simp add: dfs_simps OD g_def fs_def comp_def)
  have sub: "set selected_names \<subseteq> set (map fst fs)"
    using selected_features_df_Inr(5) [OF sel] by (simp add: dfs_simps fs_def)
  have len_g: "length (g r) = 12" for r
    by (simp add: g_def selected_names_def)
  have row: "merge_row sel (cell (columns od0) r ''OrderDetail ID'') r = [r @ g r]"
    if "r \<in> set (rows od0)" for r
  proof -
    have "matches sel (kf r) = [g r]"
      unfolding matches_def idx frows using dist' that by (rule matches_unique)
    then show ?thesis by (simp add: merge_row_def kf_def)
  qed
  have merged_rows: "rows merged = map (\<lambda>r. r @ g r) (rows od0)"
    unfolding merge_left_Inr(2) [OF m] using row by (rule concat_singletons)
  have merged_cols: "columns merged = (orderDetail_columns @ [''OrderDetail ID'']) @ map snd renaming"
    using merge_left_Inr(1) [OF m] normalize_columns(4) [OF n] selected_features_df_Inr(1) [OF sel]
    by simp
  have od_rows: "rows od = map dropkey (rows merged)"
    using drop_columns_Inr(2) [OF d] by (simp add: dropkey_def)
  have rows0: "rows od0 = map (\<lambda>r. r @ [JStr (orderDetail_ID E (cell (columns d7) r ''Order ID'')
      (cell (columns d7) r ''Product ID''))]) (rows d7)"
    by (simp add: assign assign_OrderDetail_ID_def)
  have len8: "\<forall>r \<in> set (rows od0). length r = 8"
    using len7 by (auto simp: rows0)
  have key_cs: "''OrderDetail ID'' \<notin> set orderDetail_columns"
    "''OrderDetail ID'' \<notin> set (map snd renaming)"
    "length orderDetail_columns = 7" "length renaming = 12"
    by (simp_all add: orderDetail_columns_def renaming_def)
  have one: "dropkey (r @ g r) = butlast r @ g r" if "r \<in> set (rows od0)" for r
  proof -
    from that obtain r7 kv where r: "r = r7 @ [kv]" and r7: "r7 \<in> set (rows d7)"
      by (auto simp: rows0)
    from r7 len7 have "length r7 = length orderDetail_columns" by (simp add: key_cs)
    from drop_key_row [OF this key_cs(1,2), of "g r" kv]
    have "dropkey ((r7 @ [kv]) @ g r) = r7 @ g r"
      by (simp add: dropkey_def merged_cols len_g key_cs)
    then show ?thesis by (simp add: r)
  qed
  have "rows od = map (\<lambda>r. dropkey (r @ g r)) (rows od0)"
    by (simp add: od_rows merged_rows comp_def)
  also have "\<dots> = map (\<lambda>r. butlast r @ g r) (rows od0)"
    using one by (rule map_ext [rule_format]) 
  finally have "rows od = map (\<lambda>r. butlast r @ g r) (rows od0)" .
  with od0 es_eq n sub len8 show ?thesis
    unfolding g_def fs_def by blast
qed

text \<open>
  Claim C6: for every batch, the enriched OrderDetails table has the rows of the
  normalizer's OrderDetails table, each exactly once and in the same order: its first seven
  cells are the normalizer's row without the key. The merge is a left join: with a feature
  matrix whose index holds no key twice (the entity set accepts no other), every left row
  appears once, followed by the feature row of its key, or by missing values where the
  feature matrix has no row for its key.
\<close>

theorem left_join_keeps_every_row:
  "(transform E df = Inr (c, p, o1, od) \<longrightarrow>
      (\<exists>od0. orderDetails_df E df = Inr od0
           \<and> length (rows od) = length (rows od0)
           \<and> map (take 7) (rows od) = map butlast (rows od0)))
   \<and> (distinct (index R) \<longrightarrow> merge_left L R key = Inr out \<longrightarrow>
        rows out = map (\<lambda>r. r @ (case map_of (zip (index R) (rows (features R)))
                                       (cell (columns L) r key) of
                                  None \<Rightarrow> replicate (length (columns (features R))) JNull
                                | Some m \<Rightarrow> m)) (rows L))"
proof (intro conjI impI)
  assume "transform E df = Inr (c, p, o1, od)"
  from enriched_rows [OF this] obtain od0 es where
      od0: "orderDetails_df E df = Inr od0"
    and len8: "\<forall>r \<in> set (rows od0). length r = 8"
    and rows_od: "rows od = map (\<lambda>r. butlast r @
                  map (cell (map fst (generated_features E es))
                         (map (\<lambda>f. snd f r) (generated_features E es))) selected_names)
                (rows od0)"
    by blast
  have "map (take 7) (rows od) = map butlast (rows od0)"
    unfolding rows_od using len8 by (induction "rows od0") auto
  moreover have "length (rows od) = length (rows od0)"
    by (simp add: rows_od)
  ultimately show "\<exists>od0. orderDetails_df E df = Inr od0
           \<and> length (rows od) = length (rows od0)
           \<and> map (take 7) (rows od) = map butlast (rows od0)"
    using od0 by blast
next
  assume "distinct (index R)" and "merge_left L R key = Inr out"
  then show "rows out = map (\<lambda>r. r @ (case map_of (zip (index R) (rows (features R)))
                                       (cell (columns L) r key) of
                                  None \<Rightarrow> replicate (length (columns (features R))) JNull
                                | Some m \<Rightarrow> m)) (rows L)"
    by (simp add: merge_left_Inr(2) merge_row_distinct concat_singletons)
qed

theorem left_join_keeps_every_row_witness:
  "transform example_env (DataFrame example_record)
     = Inr (example_customers, example_products, example_orders, example_orderDetails)
   \<and> (\<exists>od0. orderDetails_df example_env (DataFrame example_record) = Inr od0
          \<and> length (rows example_orderDetails) = length (rows od0)
          \<and> map (take 7) (rows example_orderDetails) = map butlast (rows od0))
   \<and> distinct (index example_right)
   \<and> merge_left example_left example_right ''OrderDetail ID'' = Inr example_merged
   \<and> rows example_merged
       = map (\<lambda>r. r @ (case map_of (zip (index example_right) (rows (features example_right)))
                               (cell (columns example_left) r ''OrderDetail ID'') of
                          None \<Rightarrow> replicate (length (columns (features example_right))) JNull
                        | Some m \<Rightarrow> m)) (rows example_left)
   \<and> rows example_merged = [[JStr ''O1_P1'', JNum 10, JNum 1, JNum 10],
                              [JStr ''O2_P1'', JNum 20, JNull, JNull]]"
proof -
  have h1: "distinct (index example_right)" by (simp add: example_right_def)
  have h2: "merge_left example_left example_right ''OrderDetail ID'' = Inr example_merged"
    by code_simp
  have h3: "rows example_merged = [[JStr ''O1_P1'', JNum 10, JNum 1, JNum 10],
                              [JStr ''O2_P1'', JNum 20, JNull, JNull]]"
    by (simp add: example_merged_def)
  from left_join_keeps_every_row [of example_env "DataFrame example_record" example_customers
      example_products example_orders example_orderDetails example_right example_left
      "''OrderDetail ID''" example_merged]
    example_transform h1 h2 h3
  show ?thesis by simp
qed

section \<open>The claims about the single record\<close>

lemma DataFrame_one_row: "length (rows (DataFrame data)) = 1"
  by (simp add: DataFrame_def split: json.splits)

lemma getitem_length: "getitem df cs = Inr d \<Longrightarrow> length (rows d) = length (rows df)"
  by (simp add: getitem_Inr(2))

lemma drop_duplicates_one_row:
  assumes "length (rows d) = 1" and "drop_duplicates ks d = Inr d'"
  shows "d' = d"
proof -
  from assms(1) obtain r where r: "rows d = [r]"
    by (cases "rows d") auto
  have "keep_first (\<lambda>r. map (cell (columns d) r) ks) [r] = [r]"
    by (rule keep_first_single)
  with assms(2) r show ?thesis
    by (auto simp: drop_duplicates_def split: if_splits)
qed

lemma normalize_one_row:
  assumes "length (rows df) = 1" and "normalize E df = Inr (c, p, o1, od0)"
  shows "getitem df customer_columns = Inr c" and "getitem df product_columns = Inr p"
    and "getitem df order_columns = Inr o1"
    and "\<exists>d. getitem df orderDetail_columns = Inr d \<and> od0 = assign_OrderDetail_ID E d"
    and "length (rows c) = 1" and "length (rows p) = 1" and "length (rows o1) = 1"
    and "length (rows od0) = 1"
proof -
  note n = normalize_Inr [OF assms(2)]
  from customers_df_Inr [OF n(1)] obtain d1 where d1: "getitem df customer_columns = Inr d1"
    "drop_duplicates [''Customer ID''] d1 = Inr c" by blast
  from products_df_Inr [OF n(2)] obtain d2 where d2: "getitem df product_columns = Inr d2"
    "drop_duplicates [''Product ID''] d2 = Inr p" by blast
  from orders_df_Inr [OF n(3)] obtain d3 where d3: "getitem df order_columns = Inr d3"
    "drop_duplicates (columns d3) d3 = Inr o1" by blast
  from orderDetails_df_Inr [OF n(4)] obtain d4 d4' where d4: "getitem df orderDetail_columns = Inr d4"
    "drop_duplicates [''Order ID'', ''Product ID''] d4 = Inr d4'" "od0 = assign_OrderDetail_ID E d4'"
    by blast
  have l: "length (rows d1) = 1" "length (rows d2) = 1" "length (rows d3) = 1" "length (rows d4) = 1"
    using getitem_length [OF d1(1)] getitem_length [OF d2(1)] getitem_length [OF d3(1)]
      getitem_length [OF d4(1)] assms(1) by simp_all
  have e: "c = d1" "p = d2" "o1 = d3" "d4' = d4"
    using drop_duplicates_one_row [OF l(1) d1(2)] drop_duplicates_one_row [OF l(2) d2(2)]
      drop_duplicates_one_row [OF l(3) d3(2)] drop_duplicates_one_row [OF l(4) d4(2)]
    by simp_all
  show "getitem df customer_columns = Inr c" "getitem df product_columns = Inr p"
    "getitem df order_columns = Inr o1"
    using d1(1) d2(1) d3(1) e by simp_all
  show "\<exists>d. getitem df orderDetail_columns = Inr d \<and> od0 = assign_OrderDetail_ID E d"
    using d4 e by blast
  show "length (rows c) = 1" "length (rows p) = 1" "length (rows o1) = 1"
    using l e by simp_all
  show "length (rows od0) = 1"
    using l e d4(3) by (simp add: assign_OrderDetail_ID_def)
qed

text \<open>
  Claim C9: the frame of an invocation has exactly one row, whatever was decoded. When the
  four tables are computed, each has exactly one row, the Customers, Products and Orders
  tables are the plain selections of their columns and the OrderDetails table is the plain
  selection with its key added, so that no \<open>drop_duplicates\<close> has removed or changed
  anything; dropping duplicates from any one-row frame returns the frame; and every table
  that an invocation loads has exactly one row.
\<close>

theorem single_record_tables:
  "length (rows (DataFrame data)) = 1
   \<and> (length (rows d) = 1 \<longrightarrow> drop_duplicates ks d = Inr d' \<longrightarrow> d' = d)
   \<and> (normalize E (DataFrame data) = Inr (c, p, o1, od0) \<longrightarrow>
        getitem (DataFrame data) customer_columns = Inr c
      \<and> getitem (DataFrame data) product_columns = Inr p
      \<and> getitem (DataFrame data) order_columns = Inr o1
      \<and> (\<exists>d. getitem (DataFrame data) orderDetail_columns = Inr d
              \<and> od0 = assign_OrderDetail_ID E d))
   \<and> (transform E (DataFrame data) = Inr (c, p, o1, od) \<longrightarrow>
        length (rows c) = 1 \<and> length (rows p) = 1 \<and> length (rows o1) = 1
      \<and> length (rows od) = 1)
   \<and> (\<forall>j \<in> set (writes s (snd (ETLpipeline E event context s))). length (rows (snd j)) = 1)"
proof -
  have one: "length (rows c') = 1 \<and> length (rows p') = 1 \<and> length (rows o') = 1
      \<and> length (rows od') = 1"
    if t: "transform E (DataFrame x) = Inr (c', p', o', od')" for x c' p' o' od'
  proof -
    from enriched_rows [OF t] obtain od1 where
        n: "normalize E (DataFrame x) = Inr (c', p', o', od1)"
      and len: "length (rows od') = length (rows od1)"
      by auto
    from normalize_one_row(5-8) [OF DataFrame_one_row n] len show ?thesis by simp
  qed
  have loaded: "length (rows (snd j)) = 1"
    if j: "j \<in> set (writes s (snd (ETLpipeline E event context s)))" for j
  proof -
    obtain out s' where run: "ETLpipeline E event context s = (out, s')"
      by (cases "ETLpipeline E event context s") auto
    from ETLpipeline_cases [OF run] show ?thesis
    proof
      assume "\<exists>e. warehouse s' = warehouse s \<and> last (stdout s') = ErrorProcessing e"
      then have "writes s s' = []" by (auto simp: writes_def)
      with j run show ?thesis by simp
    next
      assume "\<exists>msg data c p o1 od n. b64decode_utf8 E event = Inr msg \<and> json_loads E msg = Inr data
              \<and> transform E (DataFrame data) = Inr (c, p, o1, od) \<and> n \<le> 4
              \<and> warehouse s' = warehouse s @ take n (jobs c p o1 od)
              \<and> (n < 4 \<longrightarrow> (\<exists>e. last (stdout s') = ErrorProcessing e))
              \<and> (n = 4 \<longrightarrow> stdout s' = stdout s @ Decoded msg # map (\<lambda>j. Loaded (fst j)) (jobs c p o1 od))"
      then obtain x c' p' o' od' n where t: "transform E (DataFrame x) = Inr (c', p', o', od')"
        and w: "warehouse s' = warehouse s @ take n (jobs c' p' o' od')"
        by blast
      from j run writes_append [OF w] have "j \<in> set (take n (jobs c' p' o' od'))" by simp
      then have "j \<in> set (jobs c' p' o' od')" by (rule in_set_takeD)
      then have "snd j \<in> {c', p', o', od'}" by (auto simp: jobs_def)
      with one [OF t] show ?thesis by auto
    qed
  qed
  have A: "length (rows (DataFrame data)) = 1" by (rule DataFrame_one_row)
  have B: "length (rows d) = 1 \<longrightarrow> drop_duplicates ks d = Inr d' \<longrightarrow> d' = d"
    using drop_duplicates_one_row [of d ks d'] by blast
  have C: "normalize E (DataFrame data) = Inr (c, p, o1, od0) \<longrightarrow>
        getitem (DataFrame data) customer_columns = Inr c
      \<and> getitem (DataFrame data) product_columns = Inr p
      \<and> getitem (DataFrame data) order_columns = Inr o1
      \<and> (\<exists>d. getitem (DataFrame data) orderDetail_columns = Inr d
              \<and> od0 = assign_OrderDetail_ID E d)"
    using normalize_one_row(1-4) [OF DataFrame_one_row, of E data c p o1 od0] by blast
  have D: "transform E (DataFrame data) = Inr (c, p, o1, od) \<longrightarrow>
        length (rows c) = 1 \<and> length (rows p) = 1 \<and> length (rows o1) = 1
      \<and> length (rows od) = 1"
    using one [of data c p o1 od] by blast
  have F: "\<forall>j \<in> set (writes s (snd (ETLpipeline E event context s))). length (rows (snd j)) = 1"
    using loaded by blast
  from A B C D F show ?thesis by (intro conjI)
qed

theorem single_record_tables_witness:
  "length (rows (DataFrame example_record)) = 1
   \<and> length (rows example_customers) = 1
   \<and> drop_duplicates [''Customer ID''] example_customers = Inr example_customers
   \<and> transform example_env (DataFrame example_record)
       = Inr (example_customers, example_products, example_orders, example_orderDetails)
   \<and> length (rows example_customers) = 1 \<and> length (rows example_products) = 1
   \<and> length (rows example_orders) = 1 \<and> length (rows example_orderDetails) = 1
   \<and> getitem (DataFrame example_record) customer_columns = Inr example_customers
   \<and> getitem (DataFrame example_record) product_columns = Inr example_products
   \<and> getitem (DataFrame example_record) order_columns = Inr example_orders
   \<and> length (writes empty_state (snd (ETLpipeline example_env ''record'' () empty_state))) = 4
   \<and> list_all (\<lambda>j. length (rows (snd j)) = 1)
        (writes empty_state (snd (ETLpipeline example_env ''record'' () empty_state)))"
proof -
  have h1: "length (rows example_customers) = 1" by (simp add: example_customers_def)
  have h2: "drop_duplicates [''Customer ID''] example_customers = Inr example_customers"
    by code_simp
  have "\<exists>od0. normalize example_env (DataFrame example_record)
      = Inr (example_customers, example_products, example_orders, od0)"
    using enriched_rows [OF example_transform] by blast
  then obtain od0 where h3: "normalize example_env (DataFrame example_record)
      = Inr (example_customers, example_products, example_orders, od0)" ..
  from single_record_tables [of example_record example_customers "[''Customer ID'']"
      example_customers example_env example_customers example_products example_orders od0
      example_orderDetails empty_state "''record''" "()"]
    h1 h2 h3 example_transform
  show ?thesis
    by (simp add: example_run writes_def empty_state_simps jobs_def list_all_iff)
qed

subsection \<open>The features of a single row\<close>

lemma cell_append1:
  "c \<in> set cs \<Longrightarrow> cell (cs @ cs') (map f cs @ vs) c = f c"
  by (simp add: cell_def map_of_zip_map map_add_def)

lemma cell_append2:
  "c \<notin> set cs \<Longrightarrow> length vs = length cs \<Longrightarrow> cell (cs @ cs') (vs @ vs') c = cell cs' vs' c"
  by (auto simp: cell_def map_add_def split: option.splits dest!: map_of_SomeD set_zip_leftD)

lemma map_of_zip_features:
  "map_of (zip (map fst fs) (map (\<lambda>f. snd f r) fs)) n = map_option (\<lambda>g. g r) (map_of fs n)"
  by (induction fs) auto

lemma cell_features:
  "cell (map fst fs) (map (\<lambda>f. snd f r) fs) n = (case map_of fs n of Some g \<Rightarrow> g r | None \<Rightarrow> JNull)"
  unfolding cell_def map_of_zip_features by (cases "map_of fs n") simp_all

lemma in_only_if: "n \<in> set (map fst (only_if b x)) \<longleftrightarrow> b \<and> n = fst x"
  by (cases b) (simp_all add: only_if_def)

lemma only_if_True: "only_if True x = [x]"
  by (simp add: only_if_def)

lemma agg_single:
  "agg_sum [q] = JNum q" "agg_mean [q] = JNum q" "agg_max [q] = JNum q"
  by (simp_all add: agg_sum_def agg_mean_def agg_max_def)

lemma children_single:
  "rows od = [r] \<Longrightarrow> cell (columns od) r fk = k \<Longrightarrow> children od fk k = [r]"
  by (simp add: children_def)

lemma direct_single:
  assumes "rows parent = [map f (columns parent)]" and "key \<in> set (columns parent)"
    and "cell (columns od) r key = f key"
  shows "direct parent key od key g r = g (map f (columns parent))"
  using assms by (simp add: direct_def cell_map)

lemma count_children_single:
  assumes "rows od = [r]" and "key \<in> set (columns parent)" and "cell (columns od) r key = f key"
  shows "count_children parent key od key (map f (columns parent)) = JNum 1"
  using assms by (simp add: count_children_def cell_map children_single agg_count_def)

lemma aggregate_single:
  assumes "rows od = [r]" and "key \<in> set (columns parent)" and "cell (columns od) r key = f key"
    and "is_num (cell (columns od) r col)"
  shows "aggregate agg parent key od key col (map f (columns parent))
         = agg [num (cell (columns od) r col)]"
  using assms by (simp add: aggregate_def cell_map children_single values_of_def)

lemma date_part_single:
  "col \<in> set (columns parent) \<Longrightarrow> date_part part parent col (map f (columns parent)) = part (f col)"
  by (simp add: date_part_def cell_map)

lemma selected_conditions:
  assumes "set selected_names \<subseteq> set (map fst (generated_features E es))"
  shows "numeric_column (OrderDetails es) ''Profit''"
    and "numeric_column (OrderDetails es) ''Discount''"
    and "numeric_column (OrderDetails es) ''Quantity''"
    and "numeric_column (OrderDetails es) ''Sales''"
    and "datetime_column E (Orders es) ''Order Date''"
proof -
  have "''Products.MAX(OrderDetails.Profit)'' \<in> set (map fst (generated_features E es))"
    "''Products.MEAN(OrderDetails.Discount)'' \<in> set (map fst (generated_features E es))"
    "''Products.SUM(OrderDetails.Quantity)'' \<in> set (map fst (generated_features E es))"
    "''Products.SUM(OrderDetails.Sales)'' \<in> set (map fst (generated_features E es))"
    "''Orders.MONTH(Order Date)'' \<in> set (map fst (generated_features E es))"
    using assms by (auto simp: selected_names_def)
  then show "numeric_column (OrderDetails es) ''Profit''"
    "numeric_column (OrderDetails es) ''Discount''"
    "numeric_column (OrderDetails es) ''Quantity''"
    "numeric_column (OrderDetails es) ''Sales''"
    "datetime_column E (Orders es) ''Order Date''"
    unfolding generated_features_def Let_def map_append set_append Un_iff in_only_if
    by simp_all
qed

text \<open>
  Claim C10: whenever the tables of an invocation are computed, the record's \<open>Sales\<close>,
  \<open>Quantity\<close>, \<open>Discount\<close> and \<open>Profit\<close> are numbers and its \<open>Order Date\<close> is a
  date, and on the one row of the enriched OrderDetails table the three counts are 1, every
  sum, mean and maximum is the attribute of that row it aggregates, and \<open>Order_Month\<close>
  and \<open>Order_Year\<close> are the month and the year of the record's order date.
\<close>

theorem single_record_features:
  assumes "transform E (DataFrame data) = Inr (c, p, o1, od)"
  shows "\<exists>sales quantity discount profit date y m.
           column (DataFrame data) ''Sales'' = [JNum sales]
         \<and> column (DataFrame data) ''Quantity'' = [JNum quantity]
         \<and> column (DataFrame data) ''Discount'' = [JNum discount]
         \<and> column (DataFrame data) ''Profit'' = [JNum profit]
         \<and> column (DataFrame data) ''Order Date'' = [JStr date]
         \<and> to_datetime E date = Some (y, m)
         \<and> column od ''Sales'' = [JNum sales] \<and> column od ''Quantity'' = [JNum quantity]
         \<and> column od ''Discount'' = [JNum discount] \<and> column od ''Profit'' = [JNum profit]
         \<and> column od ''Customer_Order_Count'' = [JNum 1]
         \<and> column od ''Product_Order_Count'' = [JNum 1]
         \<and> column od ''Product_Max_Profit'' = [JNum profit]
         \<and> column od ''Product_Mean_Discount'' = [JNum discount]
         \<and> column od ''Product_Total_Quantity'' = [JNum quantity]
         \<and> column od ''Product_Total_Sales'' = [JNum sales]
         \<and> column od ''Order_Item_Count'' = [JNum 1]
         \<and> column od ''Order_Max_Quantity'' = [JNum quantity]
         \<and> column od ''Order_Mean_Profit'' = [JNum profit]
         \<and> column od ''Order_Total_Sales'' = [JNum sales]
         \<and> column od ''Order_Month'' = [JNum (of_int m)]
         \<and> column od ''Order_Year'' = [JNum (of_int y)]"
proof -
  obtain r0 where r0: "rows (DataFrame data) = [r0]"
    using DataFrame_one_row [of data] by (cases "rows (DataFrame data)") auto
  define f where "f = cell (columns (DataFrame data)) r0"
  have df_col: "column (DataFrame data) n = [f n]" for n
    by (simp add: column_def r0 f_def)
  from enriched_rows [OF assms] obtain od0 es where
      es: "es = \<lparr>Customers = c, Products = p, Orders = o1, OrderDetails = od0\<rparr>"
    and n: "normalize E (DataFrame data) = Inr (c, p, o1, od0)"
    and sub: "set selected_names \<subseteq> set (map fst (generated_features E es))"
    and rows_od: "rows od = map (\<lambda>r. butlast r @
                  map (cell (map fst (generated_features E es))
                         (map (\<lambda>f. snd f r) (generated_features E es))) selected_names)
                (rows od0)"
    by blast
  note one = normalize_one_row(1-4) [OF DataFrame_one_row n]
  have c: "columns c = customer_columns" "rows c = [map f (columns c)]"
    using getitem_Inr(1,2) [OF one(1)] by (simp_all add: r0 f_def)
  have p: "columns p = product_columns" "rows p = [map f (columns p)]"
    using getitem_Inr(1,2) [OF one(2)] by (simp_all add: r0 f_def)
  have o1: "columns o1 = order_columns" "rows o1 = [map f (columns o1)]"
    using getitem_Inr(1,2) [OF one(3)] by (simp_all add: r0 f_def)
  from one(4) obtain d where d: "getitem (DataFrame data) orderDetail_columns = Inr d"
    and assign: "od0 = assign_OrderDetail_ID E d"
    by blast
  have d_cols: "columns d = orderDetail_columns" and d_rows: "rows d = [map f orderDetail_columns]"
    using getitem_Inr(1,2) [OF d] by (simp_all add: r0 f_def)
  define kv where "kv = JStr (orderDetail_ID E (cell orderDetail_columns (map f orderDetail_columns) ''Order ID'')
      (cell orderDetail_columns (map f orderDetail_columns) ''Product ID''))"
  define r where "r = map f orderDetail_columns @ [kv]"
  have od0: "columns od0 = orderDetail_columns @ [''OrderDetail ID'']" "rows od0 = [r]"
    by (simp_all add: assign assign_OrderDetail_ID_def d_cols d_rows r_def kv_def)
  have od_cell: "cell (columns od0) r col = f col" if "col \<in> set orderDetail_columns" for col
    unfolding od0 r_def using that by (rule cell_append1)
  have keys: "''Customer ID'' \<in> set orderDetail_columns" "''Product ID'' \<in> set orderDetail_columns"
    "''Order ID'' \<in> set orderDetail_columns" "''Sales'' \<in> set orderDetail_columns"
    "''Quantity'' \<in> set orderDetail_columns" "''Discount'' \<in> set orderDetail_columns"
    "''Profit'' \<in> set orderDetail_columns"
    "''Customer ID'' \<in> set (columns c)" "''Product ID'' \<in> set (columns p)"
    "''Order ID'' \<in> set (columns o1)" "''Order Date'' \<in> set (columns o1)"
    by (simp_all add: orderDetail_columns_def c p o1 customer_columns_def product_columns_def
        order_columns_def)
  have od_col: "column od0 col = [f col]" if "col \<in> set orderDetail_columns" for col
    using od_cell [OF that] by (simp add: column_def od0(2))
  note conds = selected_conditions [OF sub]
  have is_nums: "is_num (f ''Profit'')" "is_num (f ''Discount'')" "is_num (f ''Quantity'')"
    "is_num (f ''Sales'')"
    using conds(1-4) by (simp_all add: es numeric_column_def od_col keys)
  then obtain profit discount quantity sales where nums: "f ''Profit'' = JNum profit"
    "f ''Discount'' = JNum discount" "f ''Quantity'' = JNum quantity" "f ''Sales'' = JNum sales"
    by (cases "f ''Profit''"; cases "f ''Discount''"; cases "f ''Quantity''"; cases "f ''Sales''")
       simp_all
  have "column o1 ''Order Date'' = [f ''Order Date'']"
    by (simp add: column_def o1(2) cell_map keys)
  with conds(5) have "is_date E (f ''Order Date'')"
    by (simp add: es datetime_column_def)
  then obtain date y m where date: "f ''Order Date'' = JStr date" "to_datetime E date = Some (y, m)"
    by (cases "f ''Order Date''") (auto simp: is_date_def)
  have gen: "generated_features E es =
      [(''Customers.COUNT(OrderDetails)'',
          direct c ''Customer ID'' od0 ''Customer ID'' (count_children c ''Customer ID'' od0 ''Customer ID'')),
       (''Products.COUNT(OrderDetails)'',
          direct p ''Product ID'' od0 ''Product ID'' (count_children p ''Product ID'' od0 ''Product ID'')),
       (''Products.MAX(OrderDetails.Profit)'',
          direct p ''Product ID'' od0 ''Product ID'' (aggregate agg_max p ''Product ID'' od0 ''Product ID'' ''Profit'')),
       (''Products.MEAN(OrderDetails.Discount)'',
          direct p ''Product ID'' od0 ''Product ID'' (aggregate agg_mean p ''Product ID'' od0 ''Product ID'' ''Discount'')),
       (''Products.SUM(OrderDetails.Quantity)'',
          direct p ''Product ID'' od0 ''Product ID'' (aggregate agg_sum p ''Product ID'' od0 ''Product ID'' ''Quantity'')),
       (''Products.SUM(OrderDetails.Sales)'',
          direct p ''Product ID'' od0 ''Product ID'' (aggregate agg_sum p ''Product ID'' od0 ''Product ID'' ''Sales'')),
       (''Orders.COUNT(OrderDetails)'',
          direct o1 ''Order ID'' od0 ''Order ID'' (count_children o1 ''Order ID'' od0 ''Order ID'')),
       (''Orders.MAX(OrderDetails.Quantity)'',
          direct o1 ''Order ID'' od0 ''Order ID'' (aggregate agg_max o1 ''Order ID'' od0 ''Order ID'' ''Quantity'')),
       (''Orders.MEAN(OrderDetails.Profit)'',
          direct o1 ''Order ID'' od0 ''Order ID'' (aggregate agg_mean o1 ''Order ID'' od0 ''Order ID'' ''Profit'')),
       (''Orders.SUM(OrderDetails.Sales)'',
          direct o1 ''Order ID'' od0 ''Order ID'' (aggregate agg_sum o1 ''Order ID'' od0 ''Order ID'' ''Sales'')),
       (''Orders.MONTH(Order Date)'',
          direct o1 ''Order ID'' od0 ''Order ID'' (date_part (month_of E) o1 ''Order Date'')),
       (''Orders.YEAR(Order Date)'',
          direct o1 ''Order ID'' od0 ''Order ID'' (date_part (year_of E) o1 ''Order Date''))]"
    using conds unfolding generated_features_def Let_def
    by (simp add: es only_if_True)
  have selected: "map (cell (map fst (generated_features E es))
                         (map (\<lambda>f. snd f r) (generated_features E es))) selected_names
      = map (\<lambda>g. snd g r) (generated_features E es)"
    unfolding cell_features gen by (simp add: selected_names_def)
  have of_c: "direct c ''Customer ID'' od0 ''Customer ID'' g r = g (map f (columns c))" for g
    using c(2) keys(8) od_cell [OF keys(1)] by (rule direct_single [where f = f])
  have of_p: "direct p ''Product ID'' od0 ''Product ID'' g r = g (map f (columns p))" for g
    using p(2) keys(9) od_cell [OF keys(2)] by (rule direct_single [where f = f])
  have of_o: "direct o1 ''Order ID'' od0 ''Order ID'' g r = g (map f (columns o1))" for g
    using o1(2) keys(10) od_cell [OF keys(3)] by (rule direct_single [where f = f])
  have counts: "count_children c ''Customer ID'' od0 ''Customer ID'' (map f (columns c)) = JNum 1"
    "count_children p ''Product ID'' od0 ''Product ID'' (map f (columns p)) = JNum 1"
    "count_children o1 ''Order ID'' od0 ''Order ID'' (map f (columns o1)) = JNum 1"
    using count_children_single [where f = f, OF od0(2) keys(8) od_cell [OF keys(1)]]
      count_children_single [where f = f, OF od0(2) keys(9) od_cell [OF keys(2)]]
      count_children_single [where f = f, OF od0(2) keys(10) od_cell [OF keys(3)]]
    by simp_all
  have agg_p: "aggregate agg p ''Product ID'' od0 ''Product ID'' col (map f (columns p))
      = agg [num (f col)]" if "col \<in> set orderDetail_columns" "is_num (f col)" for agg col
    using aggregate_single [where f = f and col = col, OF od0(2) keys(9) od_cell [OF keys(2)]]
      od_cell [OF that(1)] that(2) by simp
  have agg_o: "aggregate agg o1 ''Order ID'' od0 ''Order ID'' col (map f (columns o1))
      = agg [num (f col)]" if "col \<in> set orderDetail_columns" "is_num (f col)" for agg col
    using aggregate_single [where f = f and col = col, OF od0(2) keys(10) od_cell [OF keys(3)]]
      od_cell [OF that(1)] that(2) by simp
  have dates: "date_part (month_of E) o1 ''Order Date'' (map f (columns o1)) = JNum (of_int m)"
    "date_part (year_of E) o1 ''Order Date'' (map f (columns o1)) = JNum (of_int y)"
    using date_part_single [where f = f, OF keys(11)] by (simp_all add: month_of_def year_of_def date)
  have feats: "map (\<lambda>g. snd g r) (generated_features E es)
      = [JNum 1, JNum 1, JNum profit, JNum discount, JNum quantity, JNum sales,
         JNum 1, JNum quantity, JNum profit, JNum sales, JNum (of_int m), JNum (of_int y)]"
    unfolding gen
    using is_nums by (simp add: of_c of_p of_o counts agg_p agg_o keys dates agg_single nums)
  have od_rows: "rows od = [map f orderDetail_columns @
        [JNum 1, JNum 1, JNum profit, JNum discount, JNum quantity, JNum sales,
         JNum 1, JNum quantity, JNum profit, JNum sales, JNum (of_int m), JNum (of_int y)]]"
  proof -
    have "rows od = [butlast r @ map (cell (map fst (generated_features E es))
                         (map (\<lambda>f. snd f r) (generated_features E es))) selected_names]"
      unfolding rows_od od0(2) by simp
    then show ?thesis
      unfolding trans [OF selected feats] by (simp add: r_def)
  qed
  have od_cols: "columns od = orderDetail_columns @ map snd renaming"
    by (rule transform_columns(4) [OF assms])
  have attr: "column od col = [f col]" if "col \<in> set orderDetail_columns" for col
    using that by (simp add: column_def od_rows od_cols cell_append1)
  have feat: "column od col = [cell (map snd renaming)
        [JNum 1, JNum 1, JNum profit, JNum discount, JNum quantity, JNum sales,
         JNum 1, JNum quantity, JNum profit, JNum sales, JNum (of_int m), JNum (of_int y)] col]"
    if "col \<notin> set orderDetail_columns" for col
    using that by (simp add: column_def od_rows od_cols cell_append2)
  have not_attr: "''Customer_Order_Count'' \<notin> set orderDetail_columns"
    "''Product_Order_Count'' \<notin> set orderDetail_columns"
    "''Product_Max_Profit'' \<notin> set orderDetail_columns"
    "''Product_Mean_Discount'' \<notin> set orderDetail_columns"
    "''Product_Total_Quantity'' \<notin> set orderDetail_columns"
    "''Product_Total_Sales'' \<notin> set orderDetail_columns"
    "''Order_Item_Count'' \<notin> set orderDetail_columns"
    "''Order_Max_Quantity'' \<notin> set orderDetail_columns"
    "''Order_Mean_Profit'' \<notin> set orderDetail_columns"
    "''Order_Total_Sales'' \<notin> set orderDetail_columns"
    "''Order_Month'' \<notin> set orderDetail_columns"
    "''Order_Year'' \<notin> set orderDetail_columns"
    by (simp_all add: orderDetail_columns_def)
  have "column od ''Customer_Order_Count'' = [JNum 1]"
    "column od ''Product_Order_Count'' = [JNum 1]"
    "column od ''Product_Max_Profit'' = [JNum profit]"
    "column od ''Product_Mean_Discount'' = [JNum discount]"
    "column od ''Product_Total_Quantity'' = [JNum quantity]"
    "column od ''Product_Total_Sales'' = [JNum sales]"
    "column od ''Order_Item_Count'' = [JNum 1]"
    "column od ''Order_Max_Quantity'' = [JNum quantity]"
    "column od ''Order_Mean_Profit'' = [JNum profit]"
    "column od ''Order_Total_Sales'' = [JNum sales]"
    "column od ''Order_Month'' = [JNum (of_int m)]"
    "column od ''Order_Year'' = [JNum (of_int y)]"
    unfolding feat [OF not_attr(1)] feat [OF not_attr(2)] feat [OF not_attr(3)]
      feat [OF not_attr(4)] feat [OF not_attr(5)] feat [OF not_attr(6)] feat [OF not_attr(7)]
      feat [OF not_attr(8)] feat [OF not_attr(9)] feat [OF not_attr(10)] feat [OF not_attr(11)]
      feat [OF not_attr(12)]
    by (simp_all add: renaming_def cell_def)
  moreover have "column od ''Sales'' = [JNum sales]" "column od ''Quantity'' = [JNum quantity]"
    "column od ''Discount'' = [JNum discount]" "column od ''Profit'' = [JNum profit]"
    using attr [OF keys(4)] attr [OF keys(5)] attr [OF keys(6)] attr [OF keys(7)]
    by (simp_all add: nums)
  moreover have "column (DataFrame data) ''Sales'' = [JNum sales]"
    "column (DataFrame data) ''Quantity'' = [JNum quantity]"
    "column (DataFrame data) ''Discount'' = [JNum discount]"
    "column (DataFrame data) ''Profit'' = [JNum profit]"
    "column (DataFrame data) ''Order Date'' = [JStr date]"
    by (simp_all add: df_col nums date)
  ultimately show ?thesis using date(2) by blast
qed

theorem single_record_features_witness:
  "transform example_env (DataFrame example_record)
     = Inr (example_customers, example_products, example_orders, example_orderDetails)
   \<and> column example_orderDetails ''Sales'' = [JNum (26196 / 100)]
   \<and> column example_orderDetails ''Product_Total_Sales'' = [JNum (26196 / 100)]
   \<and> column example_orderDetails ''Order_Mean_Profit'' = column example_orderDetails ''Profit''
   \<and> column example_orderDetails ''Order_Month'' = [JNum 11]
   \<and> column example_orderDetails ''Order_Year'' = [JNum 2016]
   \<and> (\<exists>sales quantity discount profit date y m.
           column (DataFrame example_record) ''Sales'' = [JNum sales]
         \<and> column (DataFrame example_record) ''Quantity'' = [JNum quantity]
         \<and> column (DataFrame example_record) ''Discount'' = [JNum discount]
         \<and> column (DataFrame example_record) ''Profit'' = [JNum profit]
         \<and> column (DataFrame example_record) ''Order Date'' = [JStr date]
         \<and> to_datetime example_env date = Some (y, m)
         \<and> column example_orderDetails ''Sales'' = [JNum sales]
         \<and> column example_orderDetails ''Quantity'' = [JNum quantity]
         \<and> column example_orderDetails ''Discount'' = [JNum discount]
         \<and> column example_orderDetails ''Profit'' = [JNum profit]
         \<and> column example_orderDetails ''Customer_Order_Count'' = [JNum 1]
         \<and> column example_orderDetails ''Product_Order_Count'' = [JNum 1]
         \<and> column example_orderDetails ''Product_Max_Profit'' = [JNum profit]
         \<and> column example_orderDetails ''Product_Mean_Discount'' = [JNum discount]
         \<and> column example_orderDetails ''Product_Total_Quantity'' = [JNum quantity]
         \<and> column example_orderDetails ''Product_Total_Sales'' = [JNum sales]
         \<and> column example_orderDetails ''Order_Item_Count'' = [JNum 1]
         \<and> column example_orderDetails ''Order_Max_Quantity'' = [JNum quantity]
         \<and> column example_orderDetails ''Order_Mean_Profit'' = [JNum profit]
         \<and> column example_orderDetails ''Order_Total_Sales'' = [JNum sales]
         \<and> column example_orderDetails ''Order_Month'' = [JNum (of_int m)]
         \<and> column example_orderDetails ''Order_Year'' = [JNum (of_int y)])"
proof -
  have "column example_orderDetails ''Sales'' = [JNum (26196 / 100)]"
    "column example_orderDetails ''Product_Total_Sales'' = [JNum (26196 / 100)]"
    "column example_orderDetails ''Order_Mean_Profit'' = column example_orderDetails ''Profit''"
    "column example_orderDetails ''Order_Month'' = [JNum 11]"
    "column example_orderDetails ''Order_Year'' = [JNum 2016]"
    by code_simp+
  with single_record_features [OF example_transform] example_transform
  show ?thesis by (intro conjI)
qed

section \<open>The claim about the feature derivation engine\<close>

text \<open>
  Claim C7: for an ancestor row with no row of OrderDetails, the mean over its descendants
  is a missing value, and the month and the year of a missing date of an ancestor are
  missing values; a feature is a value in every case, never an error.
\<close>

theorem null_safe_features:
  "(children od fk (cell (columns parent) prow key) = [] \<longrightarrow>
      aggregate agg_mean parent key od fk col prow = JNull)
   \<and> (cell (columns parent) prow col = JNull \<longrightarrow>
        date_part (month_of E) parent col prow = JNull
      \<and> date_part (year_of E) parent col prow = JNull)"
  by (simp add: aggregate_def values_of_def agg_mean_def date_part_def month_of_def year_of_def)

theorem null_safe_features_witness:
  "children (OrderDetails example_es) ''Product ID''
      (cell (columns (Products example_es)) [JStr ''P2''] ''Product ID'') = []
   \<and> aggregate agg_mean (Products example_es) ''Product ID'' (OrderDetails example_es)
        ''Product ID'' ''Discount'' [JStr ''P2''] = JNull
   \<and> aggregate agg_mean (Products example_es) ''Product ID'' (OrderDetails example_es)
        ''Product ID'' ''Discount'' [JStr ''P1''] = JNum (1 / 2)
   \<and> cell (columns (Orders example_es)) [JStr ''O2'', JNull] ''Order Date'' = JNull
   \<and> date_part (month_of example_env) (Orders example_es) ''Order Date'' [JStr ''O2'', JNull] = JNull
   \<and> date_part (year_of example_env) (Orders example_es) ''Order Date'' [JStr ''O2'', JNull] = JNull
   \<and> column (features (dfs example_env example_es)) ''Orders.MONTH(Order Date)'' = [JNum 11, JNull]
   \<and> column (features (dfs example_env example_es)) ''Orders.YEAR(Order Date)'' = [JNum 2016, JNull]
   \<and> column (features (dfs example_env example_es)) ''Products.MEAN(OrderDetails.Discount)''
       = [JNum (1 / 2), JNum (1 / 2)]"
proof -
  have h1: "children (OrderDetails example_es) ''Product ID''
      (cell (columns (Products example_es)) [JStr ''P2''] ''Product ID'') = []"
    by code_simp
  have h2: "cell (columns (Orders example_es)) [JStr ''O2'', JNull] ''Order Date'' = JNull"
    by code_simp
  have h3: "aggregate agg_mean (Products example_es) ''Product ID'' (OrderDetails example_es)
        ''Product ID'' ''Discount'' [JStr ''P1''] = JNum (1 / 2)"
    by code_simp
  have h4: "column (features (dfs example_env example_es)) ''Orders.MONTH(Order Date)'' = [JNum 11, JNull]"
    "column (features (dfs example_env example_es)) ''Orders.YEAR(Order Date)'' = [JNum 2016, JNull]"
    "column (features (dfs example_env example_es)) ''Products.MEAN(OrderDetails.Discount)''
       = [JNum (1 / 2), JNum (1 / 2)]"
    by code_simp+
  from null_safe_features [of "OrderDetails example_es" "''Product ID''" "Products example_es"
      "[JStr ''P2'']" "''Product ID''" "''Discount''" example_env]
    h1 h3 h4
  have a: "aggregate agg_mean (Products example_es) ''Product ID'' (OrderDetails example_es)
        ''Product ID'' ''Discount'' [JStr ''P2''] = JNull"
    by simp
  from null_safe_features [of "OrderDetails example_es" "''Order ID''" "Orders example_es"
      "[JStr ''O2'', JNull]" "''Order ID''" "''Order Date''" example_env] h2
  have b: "date_part (month_of example_env) (Orders example_es) ''Order Date'' [JStr ''O2'', JNull] = JNull"
    "date_part (year_of example_env) (Orders example_es) ''Order Date'' [JStr ''O2'', JNull] = JNull"
    by simp_all
  from h1 a h3 h2 b h4 show ?thesis by (intro conjI)
qed

end
